theory Spec2Isabelle
  imports Complex_Main "HOL-Library.Char_ord" "HOL-Library.List_Lexorder" "HOL-Library.Product_Lexorder"
begin

section \<open>NASDAQ ITCH 5.0 trade parser: embedding of ITCH\_parser.py\<close>

text \<open>
  The development follows the class \<open>ITCH_trade\<close> of \<open>ITCH_parser.py\<close>.
  Python \<open>bytes\<close> are lists of \<open>char\<close> (a \<open>char\<close> is one byte), Python integers are
  \<open>nat\<close> or \<open>int\<close>, exceptions are values of the type \<open>error\<close>. Python floats are
  idealised as exact rationals (\<open>rat\<close>): the binary rounding of IEEE doubles is not
  part of the model, the decimal rounding done by \<open>round(x, 3)\<close> is.
\<close>

subsection \<open>Exceptions\<close>

text \<open>
  \<open>AssertionError\<close> is raised by the \<open>assert\<close> of \<open>get_trade_data\<close>, \<open>StructError\<close>
  (\<open>struct.error\<close>) by \<open>struct.unpack\<close> on a buffer of the wrong size,
  \<open>UnicodeDecodeError\<close> by \<open>bytes.decode('ascii')\<close>, \<open>ValueError\<close> by \<open>int(str)\<close>.
\<close>

datatype error = AssertionError | StructError | UnicodeDecodeError | ValueError

subsection \<open>The struct module: big-endian unsigned integers\<close>

text \<open>\<open>struct.unpack\<close> of an unsigned field (\<open>H\<close>, \<open>I\<close>, \<open>Q\<close>) in big-endian
  byte order: the bytes read as one number.\<close>

definition unpack_uint :: "char list \<Rightarrow> nat" where
  "unpack_uint bs = foldl (\<lambda>a c. 256 * a + of_char c) 0 bs"

text \<open>\<open>struct.pack\<close> of an unsigned field of \<open>n\<close> bytes in big-endian byte order. Python raises
  \<open>struct.error\<close> when the value does not fit; every value packed by the decoders comes
  from \<open>unpack_uint\<close> of a field of the same width, so it fits (lemma
  \<open>unpack_uint_bound\<close>) and that branch is never taken.\<close>

fun pack_uint :: "nat \<Rightarrow> nat \<Rightarrow> char list" where
  "pack_uint 0 v = []"
| "pack_uint (Suc n) v = pack_uint n (v div 256) @ [char_of (v mod 256)]"

text \<open>The bytes of a buffer from offset \<open>off\<close>, \<open>len\<close> of them: one field of a
  format string.\<close>

definition field :: "nat \<Rightarrow> nat \<Rightarrow> char list \<Rightarrow> char list" where
  "field off len bs = take len (drop off bs)"

text \<open>The direct decode of the spec's design note: the 6 timestamp bytes of a wire
  message (offset 4) read as one 48-bit big-endian unsigned integer.\<close>

definition decode_uint48_direct :: "char list \<Rightarrow> nat" where
  "decode_uint48_direct msg = unpack_uint (field 4 6 msg)"

subsection \<open>Decimal rounding\<close>

text \<open>Rounding to the nearest integer, ties to the even one: the rule of Python's
  \<open>round\<close>, of \<open>numpy.round\<close> and of the microsecond rounding of \<open>timedelta\<close>.\<close>

definition round_half_even :: "rat \<Rightarrow> int" where
  "round_half_even x =
     (let f = \<lfloor>x\<rfloor>; d = x - of_int f
      in if d < 1 / 2 then f else if 1 / 2 < d then f + 1
         else if even f then f else f + 1)"

text \<open>\<open>round(x, 3)\<close>.\<close>

definition round3 :: "rat \<Rightarrow> rat" where
  "round3 x = of_int (round_half_even (x * 1000)) / 1000"

text \<open>\<open>round(record[7] / 10000, 3)\<close>: the price field of a decoded message.\<close>

definition decode_price :: "nat \<Rightarrow> rat" where
  "decode_price p = round3 (of_nat p / 10000)"

subsection \<open>Strings\<close>

text \<open>\<open>"%d" % n\<close> for a natural number: its decimal digits.\<close>

definition digit_char :: "nat \<Rightarrow> char" where
  "digit_char d = ''0123456789'' ! d"

function str_nat :: "nat \<Rightarrow> string" where
  "str_nat n = (if n < 10 then [digit_char n]
                else str_nat (n div 10) @ [digit_char (n mod 10)])"
  by pat_completeness auto
termination
  by (relation "measure id") auto

declare str_nat.simps [simp del]

text \<open>\<open>"%02d" % n\<close>.\<close>

definition str_nat02 :: "nat \<Rightarrow> string" where
  "str_nat02 n = (if n < 10 then CHR ''0'' # str_nat n else str_nat n)"

text \<open>\<open>s.split(sep)[0]\<close> for a one-character separator: the part of \<open>s\<close> before the
  first separator, all of \<open>s\<close> when there is none.\<close>

definition split_first :: "char \<Rightarrow> string \<Rightarrow> string" where
  "split_first sep s = takeWhile (\<lambda>c. c \<noteq> sep) s"

definition is_digit :: "char \<Rightarrow> bool" where
  "is_digit c = (48 \<le> (of_char c :: nat) \<and> (of_char c :: nat) \<le> 57)"

text \<open>\<open>int(s)\<close> on the strings \<open>trade_message\<close> passes to it: a non-empty string of
  decimal digits is its value, anything else here (a string holding \<open>" day, "\<close>) raises
  \<open>ValueError\<close>. The signs, underscores and surrounding blanks that Python's \<open>int\<close> also
  accepts do not occur in the output of \<open>str(timedelta)\<close>.\<close>

definition py_int :: "string \<Rightarrow> error + int" where
  "py_int s =
     (if s \<noteq> [] \<and> list_all is_digit s
      then Inr (int (foldl (\<lambda>a c. 10 * a + (of_char c - 48)) 0 s))
      else Inl ValueError)"

text \<open>\<open>bytes.decode('ascii')\<close>: fails on a byte above 127.\<close>

definition decode_ascii :: "char list \<Rightarrow> error + string" where
  "decode_ascii bs =
     (if list_all (\<lambda>c. (of_char c :: nat) < 128) bs then Inr bs else Inl UnicodeDecodeError)"

text \<open>\<open>str.strip()\<close>: the ASCII characters Python counts as white space are tab, line
  feed, vertical tab, form feed, carriage return, the separators 28 to 31 and the blank.\<close>

definition is_space :: "char \<Rightarrow> bool" where
  "is_space c = (let n = (of_char c :: nat) in (9 \<le> n \<and> n \<le> 13) \<or> (28 \<le> n \<and> n \<le> 32))"

definition strip :: "string \<Rightarrow> string" where
  "strip s = rev (dropWhile is_space (rev (dropWhile is_space s)))"

subsection \<open>datetime.timedelta\<close>

text \<open>
  \<open>timedelta(seconds = ns / 1e9)\<close> keeps whole microseconds, rounding the fraction half
  to even; the value is held here as its total number of microseconds.
\<close>

definition timedelta_of_ns :: "nat \<Rightarrow> nat" where
  "timedelta_of_ns ns = nat (round_half_even (of_nat ns / 1000))"

text \<open>\<open>str(timedelta)\<close>: \<open>"%d:%02d:%02d"\<close> of hours, minutes and seconds, after
  \<open>"N day, "\<close> or \<open>"N days, "\<close> when the days are not zero, before \<open>".%06d"\<close> of the
  microseconds when they are not zero.\<close>

definition str_nat06 :: "nat \<Rightarrow> string" where
  "str_nat06 n = replicate (6 - length (str_nat n)) (CHR ''0'') @ str_nat n"

definition str_timedelta :: "nat \<Rightarrow> string" where
  "str_timedelta us_total =
     (let days = us_total div (86400 * 1000000);
          seconds = (us_total div 1000000) mod 86400;
          microseconds = us_total mod 1000000;
          mm = seconds div 60; ss = seconds mod 60;
          hh = mm div 60; mm = mm mod 60;
          s = str_nat hh @ '':'' @ str_nat02 mm @ '':'' @ str_nat02 ss;
          s = (if days \<noteq> 0
               then str_nat days @ '' day'' @ (if days \<noteq> 1 then ''s'' else '''') @ '', '' @ s
               else s);
          s = (if microseconds \<noteq> 0 then s @ ''.'' @ str_nat06 microseconds else s)
      in s)"

subsection \<open>Decoded trades\<close>

text \<open>One decoded message: the list \<open>[time_str, end_time_hour, type, shares, stock,
  price]\<close> returned by the two decoders, a row of the data frames with the columns
  \<open>time\<close>, \<open>end_time_hour\<close>, \<open>type\<close>, \<open>shares\<close>, \<open>stock\<close>, \<open>price\<close>.\<close>

record trade =
  time :: string
  end_time_hour :: int
  type :: string
  shares :: int
  stock :: string
  price :: rat

text \<open>Lines 36 and 37 of both decoders: the time string of a timestamp and the hour
  after it.\<close>

definition time_str_of :: "nat \<Rightarrow> string" where
  "time_str_of ns = split_first (CHR ''.'') (str_timedelta (timedelta_of_ns ns))"

definition end_time_hour_of :: "string \<Rightarrow> error + int" where
  "end_time_hour_of time_str =
     (case py_int (split_first (CHR '':'') time_str) of
        Inl e \<Rightarrow> Inl e
      | Inr h \<Rightarrow> Inr (h + 1))"

text \<open>
  \<open>trade_message\<close>, lines 31 to 34: the 43 bytes are unpacked with \<open>>4s6sQcI8cIQ\<close> and
  packed again with two zero bytes before the 6 timestamp bytes, which gives 45 bytes.
\<close>

definition repack_trade :: "char list \<Rightarrow> char list" where
  "repack_trade msg =
     field 0 4 msg @ [CHR 0x00, CHR 0x00] @ field 4 6 msg
       @ pack_uint 8 (unpack_uint (field 10 8 msg))
       @ field 18 1 msg
       @ pack_uint 4 (unpack_uint (field 19 4 msg))
       @ field 23 8 msg
       @ pack_uint 4 (unpack_uint (field 31 4 msg))
       @ pack_uint 8 (unpack_uint (field 35 8 msg))"

text \<open>Line 35: \<open>record[2]\<close> of \<open>struct.unpack('>HHQQsI8sIQ', msg)\<close>, the timestamp;
  the other fields of that tuple follow in \<open>trade_message\<close>.\<close>

definition trade_timestamp :: "char list \<Rightarrow> nat" where
  "trade_timestamp msg = unpack_uint (field 4 8 (repack_trade msg))"

definition trade_message :: "char list \<Rightarrow> error + trade" where
  "trade_message msg =
     (if length msg \<noteq> 43 then Inl StructError
      else
        let packed = repack_trade msg;
            record2 = trade_timestamp msg;
            record4 = field 20 1 packed;
            record5 = unpack_uint (field 21 4 packed);
            record6 = field 25 8 packed;
            record7 = unpack_uint (field 33 4 packed);
            time_str = time_str_of record2
        in case end_time_hour_of time_str of
             Inl e \<Rightarrow> Inl e
           | Inr hour \<Rightarrow>
               (case decode_ascii record4 of
                  Inl e \<Rightarrow> Inl e
                | Inr side \<Rightarrow>
                    (case decode_ascii record6 of
                       Inl e \<Rightarrow> Inl e
                     | Inr symbol \<Rightarrow>
                         Inr \<lparr>time = time_str, end_time_hour = hour, type = side,
                              shares = int record5, stock = strip symbol,
                              price = decode_price record7\<rparr>)))"

text \<open>
  \<open>cross_trade_message\<close>, lines 53 to 56: the 39 bytes are unpacked with
  \<open>>4s6sQ8cIQc\<close> and packed again with the two zero bytes, which gives 41 bytes.
\<close>

definition repack_cross_trade :: "char list \<Rightarrow> char list" where
  "repack_cross_trade msg =
     field 0 4 msg @ [CHR 0x00, CHR 0x00] @ field 4 6 msg
       @ pack_uint 8 (unpack_uint (field 10 8 msg))
       @ field 18 8 msg
       @ pack_uint 4 (unpack_uint (field 26 4 msg))
       @ pack_uint 8 (unpack_uint (field 30 8 msg))
       @ field 38 1 msg"

text \<open>Line 57: \<open>record[2]\<close> of \<open>struct.unpack('>HHQQ8sIQs', msg)\<close>.\<close>

definition cross_trade_timestamp :: "char list \<Rightarrow> nat" where
  "cross_trade_timestamp msg = unpack_uint (field 4 8 (repack_cross_trade msg))"

definition cross_trade_message :: "char list \<Rightarrow> error + trade" where
  "cross_trade_message msg =
     (if length msg \<noteq> 39 then Inl StructError
      else
        let packed = repack_cross_trade msg;
            record2 = cross_trade_timestamp msg;
            record3 = unpack_uint (field 12 8 packed);
            record4 = field 20 8 packed;
            record5 = unpack_uint (field 28 4 packed);
            record7 = field 40 1 packed;
            time_str = time_str_of record2
        in case end_time_hour_of time_str of
             Inl e \<Rightarrow> Inl e
           | Inr hour \<Rightarrow>
               (case decode_ascii record7 of
                  Inl e \<Rightarrow> Inl e
                | Inr cross \<Rightarrow>
                    (case decode_ascii record4 of
                       Inl e \<Rightarrow> Inl e
                     | Inr symbol \<Rightarrow>
                         Inr \<lparr>time = time_str, end_time_hour = hour, type = cross,
                              shares = int record3, stock = strip symbol,
                              price = decode_price record5\<rparr>)))"

subsection \<open>The byte stream\<close>

text \<open>
  The object returned by \<open>gzip.open(path, 'rb')\<close>: the decompressed bytes not read yet,
  and whether \<open>close()\<close> has been called on it. The decompressed content of the files
  is a parameter \<open>fs\<close> of the functions that open one.
\<close>

record handle =
  remaining :: "char list"
  closed :: bool

definition gzip_open :: "char list \<Rightarrow> handle" where
  "gzip_open content = \<lparr>remaining = content, closed = False\<rparr>"

text \<open>\<open>bin_data.read(n)\<close>: the next \<open>n\<close> bytes, fewer at the end of the stream (none
  once it is exhausted), and the handle advanced past them. Python raises \<open>ValueError\<close>
  on a closed handle; the class has no call of \<open>close()\<close>, so every read is on the open
  handle that \<open>gzip_open\<close> returned and that case is left out.\<close>

definition read :: "nat \<Rightarrow> handle \<Rightarrow> char list \<times> handle" where
  "read n h = (take n (remaining h), h\<lparr>remaining := drop n (remaining h)\<rparr>)"

subsection \<open>The message loop of get\_trade\_data\<close>

text \<open>The list of the \<open>assert\<close>, line 78.\<close>

definition valid_types :: "char list list" where
  "valid_types =
     [''S'', ''R'', ''H'', ''Y'', ''L'', ''V'', ''W'', ''K'', ''J'', ''h'', ''A'',
      ''F'', ''E'', ''C'', ''X'', ''D'', ''U'', ''P'', ''Q'', ''B'', ''I'']"

text \<open>
  The \<open>if\<close>/\<open>elif\<close> chain of lines 80 to 127, in its order: a payload to skip, or one
  of the two decoders. When no test matches the source reads nothing, which is a read of
  0 bytes.
\<close>

datatype branch = Skip nat | NonCrossTrade | CrossTrade

definition branch_of :: "char list \<Rightarrow> branch" where
  "branch_of msg_type =
     (if msg_type = ''S'' then Skip 13
      else if msg_type = ''R'' then Skip 40
      else if msg_type = ''H'' then Skip 26
      else if msg_type = ''Y'' then Skip 21
      else if msg_type = ''L'' then Skip 27
      else if msg_type = ''V'' then Skip 36
      else if msg_type = ''W'' then Skip 13
      else if msg_type = ''K'' then Skip 29
      else if msg_type = ''J'' then Skip 36
      else if msg_type = ''h'' then Skip 22
      else if msg_type = ''A'' then Skip 37
      else if msg_type = ''F'' then Skip 41
      else if msg_type = ''E'' then Skip 32
      else if msg_type = ''C'' then Skip 37
      else if msg_type = ''X'' then Skip 24
      else if msg_type = ''D'' then Skip 20
      else if msg_type = ''U'' then Skip 36
      else if msg_type = ''P'' then NonCrossTrade
      else if msg_type = ''Q'' then CrossTrade
      else if msg_type = ''B'' then Skip 20
      else if msg_type = ''I'' then Skip 51
      else Skip 0)"

text \<open>
  The \<open>while msg_type:\<close> loop, lines 77 to 128, from the state at its head: the type
  byte just read, the handle and the two lists. It returns the two lists, or the
  exception that ended it, and the handle as it is then.
\<close>

function loop ::
  "char list \<Rightarrow> handle \<Rightarrow> trade list \<Rightarrow> trade list
     \<Rightarrow> (error + trade list \<times> trade list) \<times> handle" where
  "loop msg_type bin_data trade_list cross_trade_list =
     (if msg_type = [] then (Inr (trade_list, cross_trade_list), bin_data)
      else if msg_type \<notin> set valid_types then (Inl AssertionError, bin_data)
      else
        (case branch_of msg_type of
           Skip n \<Rightarrow>
             (let b1 = snd (read n bin_data)
              in loop (fst (read 1 b1)) (snd (read 1 b1)) trade_list cross_trade_list)
         | NonCrossTrade \<Rightarrow>
             (let msg = fst (read 43 bin_data); b1 = snd (read 43 bin_data)
              in case trade_message msg of
                   Inl e \<Rightarrow> (Inl e, b1)
                 | Inr record \<Rightarrow>
                     (let b2 = snd (read 2 b1)
                      in loop (fst (read 1 b2)) (snd (read 1 b2))
                           (trade_list @ [record]) cross_trade_list))
         | CrossTrade \<Rightarrow>
             (let msg = fst (read 39 bin_data); b1 = snd (read 39 bin_data)
              in case cross_trade_message msg of
                   Inl e \<Rightarrow> (Inl e, b1)
                 | Inr record \<Rightarrow>
                     (let b2 = snd (read 2 b1)
                      in loop (fst (read 1 b2)) (snd (read 1 b2))
                           trade_list (cross_trade_list @ [record])))))"
  by pat_completeness auto
termination
  by (relation "measure (\<lambda>(t, h, _, _). length t + length (remaining h))")
     (auto simp: read_def neq_Nil_conv)

declare loop.simps [simp del]

subsection \<open>Data frames and the object\<close>

text \<open>
  A \<open>DataFrame\<close> of trades is a mutable object: \<open>calculate_VWAP\<close> adds the column
  \<open>total_value\<close> to the frame it is given. Frames therefore live in a heap, a list of
  frames addressed by position, and variables hold references. A frame is its rows and
  the column \<open>total_value\<close> when it has one (an entry \<open>None\<close> of the column is NaN).
\<close>

record frame =
  rows :: "trade list"
  total_value :: "rat option list option"

type_synonym ref = nat
type_synonym heap = "frame list"

definition alloc :: "heap \<Rightarrow> frame \<Rightarrow> ref \<times> heap" where
  "alloc h f = (length h, h @ [f])"

text \<open>\<open>pd.DataFrame(trade_list, columns = [...])\<close>.\<close>

definition DataFrame :: "trade list \<Rightarrow> frame" where
  "DataFrame trade_list = \<lparr>rows = trade_list, total_value = None\<rparr>"

text \<open>\<open>df.copy()\<close>: a new frame with the same content.\<close>

definition copy :: "heap \<Rightarrow> ref \<Rightarrow> ref \<times> heap" where
  "copy h r = alloc h (h ! r)"

text \<open>\<open>pd.concat([a, b], ignore_index=True)\<close>: the rows of \<open>a\<close>, then those of
  \<open>b\<close>; a column only one of them has is filled with NaN for the rows of the other.\<close>

definition column_or_nan :: "frame \<Rightarrow> rat option list" where
  "column_or_nan f =
     (case total_value f of Some c \<Rightarrow> c | None \<Rightarrow> replicate (length (rows f)) None)"

definition pd_concat :: "frame \<Rightarrow> frame \<Rightarrow> frame" where
  "pd_concat a b =
     \<lparr>rows = rows a @ rows b,
      total_value = (if total_value a = None \<and> total_value b = None then None
                     else Some (column_or_nan a @ column_or_nan b))\<rparr>"

text \<open>The attributes of an \<open>ITCH_trade\<close> object; \<open>None\<close> is Python's \<open>None\<close>.\<close>

record ITCH_trade =
  ITCH_data_path :: string
  trade_df :: "ref option"
  cross_trade_df :: "ref option"

text \<open>
  \<open>get_trade_data\<close>: the result or the exception, the handle \<open>bin_data\<close> as it is when
  the function is left, the object and the heap. The attributes are assigned on line
  132 and 133 only, after the loop.
\<close>

definition get_trade_data ::
  "(string \<Rightarrow> char list) \<Rightarrow> ITCH_trade \<Rightarrow> heap
     \<Rightarrow> (error + ref \<times> ref) \<times> handle \<times> ITCH_trade \<times> heap" where
  "get_trade_data fs self h =
     (let bin_data = gzip_open (fs (ITCH_data_path self));
          bin_data = snd (read 2 bin_data);
          msg_type = fst (read 1 bin_data);
          bin_data = snd (read 1 bin_data)
      in case loop msg_type bin_data [] [] of
           (Inl e, bin_data) \<Rightarrow> (Inl e, bin_data, self, h)
         | (Inr (trade_list, cross_trade_list), bin_data) \<Rightarrow>
             (let t = fst (alloc h (DataFrame trade_list));
                  h = snd (alloc h (DataFrame trade_list));
                  c = fst (alloc h (DataFrame cross_trade_list));
                  h = snd (alloc h (DataFrame cross_trade_list));
                  self = self\<lparr>trade_df := Some t, cross_trade_df := Some c\<rparr>
              in (Inr (t, c), bin_data, self, h)))"

subsection \<open>The VWAP table\<close>

text \<open>
  pandas is taken as a grouping primitive on lists of rows: \<open>groupby(...).sum()\<close>,
  \<open>sort_values\<close> and \<open>groupby(...).cumsum()\<close> are the list functions below, the
  float columns hold exact rationals and the integer columns unbounded integers (the
  wrap-around of \<open>int64\<close> sums is not modelled).

  The quotient of a float column by an integer column in pandas: a division by zero
  raises nothing, it gives an infinity or NaN. \<open>round\<close> leaves those as they are.
\<close>

datatype np_float = Finite rat | PosInf | NegInf | NaN

definition np_div :: "rat \<Rightarrow> int \<Rightarrow> np_float" where
  "np_div x n =
     (if n \<noteq> 0 then Finite (x / of_int n)
      else if 0 < x then PosInf else if x < 0 then NegInf else NaN)"

definition np_round3 :: "np_float \<Rightarrow> np_float" where
  "np_round3 v = (case v of Finite x \<Rightarrow> Finite (round3 x) | _ \<Rightarrow> v)"

text \<open>A row of the frame \<open>calculate_VWAP\<close> returns, with its columns \<open>end_time_hour\<close>,
  \<open>stock\<close>, \<open>total_value\<close>, \<open>shares\<close>, \<open>vwap\<close>, \<open>cum_total_value\<close>, \<open>cum_shares\<close>,
  \<open>cum_vwap\<close>.\<close>

record vwap_row =
  group_end_time_hour :: int
  group_stock :: string
  sum_total_value :: rat
  sum_shares :: int
  vwap :: np_float
  cum_total_value :: rat
  cum_shares :: int
  cum_vwap :: np_float

text \<open>
  \<open>df.groupby([end_time_hour, stock])[total_value, shares].sum()\<close>, line 151, on rows
  given as (key, total value, shares): one row for each key that occurs, the keys in
  ascending order, with the sums over the rows of the key.
\<close>

definition groupby_sum ::
  "((int \<times> string) \<times> rat \<times> int) list \<Rightarrow> ((int \<times> string) \<times> rat \<times> int) list" where
  "groupby_sum xs =
     map (\<lambda>k. (k, sum_list (map (\<lambda>x. fst (snd x)) (filter (\<lambda>x. fst x = k) xs)),
                  sum_list (map (\<lambda>x. snd (snd x)) (filter (\<lambda>x. fst x = k) xs))))
       (sort (remdups (map fst xs)))"

text \<open>\<open>df.groupby(stock)[column].cumsum()\<close>, lines 156 and 158: down the rows, each row
  gets the sum of the column over the rows of its stock so far, itself included.\<close>

fun groupby_cumsum :: "('k \<Rightarrow> 'a::monoid_add) \<Rightarrow> ('k \<times> 'a) list \<Rightarrow> 'a list" where
  "groupby_cumsum acc [] = []"
| "groupby_cumsum acc ((k, v) # xs) =
     (acc k + v) # groupby_cumsum (acc(k := acc k + v)) xs"

text \<open>Lines 151 to 161 on the rows of the frame and its column \<open>total_value\<close>.\<close>

definition vwap_table :: "(trade \<times> rat) list \<Rightarrow> vwap_row list" where
  "vwap_table xs =
     (let grouped = groupby_sum (map (\<lambda>(t, v). ((end_time_hour t, stock t), v, shares t)) xs);
          with_vwap = map (\<lambda>(k, v, n). (k, v, n, np_round3 (np_div v n))) grouped;
          sorted_df = sort_key fst with_vwap;
          cum_v = groupby_cumsum (\<lambda>_. 0) (map (\<lambda>(k, v, n, w). (snd k, v)) sorted_df);
          cum_n = groupby_cumsum (\<lambda>_. 0) (map (\<lambda>(k, v, n, w). (snd k, n)) sorted_df)
      in map (\<lambda>((k, v, n, w), cv, cn).
                \<lparr>group_end_time_hour = fst k, group_stock = snd k,
                 sum_total_value = v, sum_shares = n, vwap = w,
                 cum_total_value = cv, cum_shares = cn,
                 cum_vwap = np_round3 (np_div cv cn)\<rparr>)
           (zip sorted_df (zip cum_v cum_n)))"

text \<open>
  \<open>calculate_VWAP\<close>: line 149 writes the column \<open>total_value\<close> into the frame the
  argument \<open>trade_df\<close> (here \<open>arg\<close>, a reference) refers to; the table is computed
  from that frame and returned.
\<close>

definition calculate_VWAP :: "heap \<Rightarrow> ref \<Rightarrow> vwap_row list \<times> heap" where
  "calculate_VWAP h arg =
     (let df = h ! arg;
          col = map (\<lambda>t. price t * of_int (shares t)) (rows df);
          h = h[arg := df\<lparr>total_value := Some (map Some col)\<rparr>]
      in (vwap_table (zip (rows (h ! arg)) col), h))"

text \<open>The table \<open>calculate_VWAP\<close> returns for a frame with the rows \<open>rs\<close>.\<close>

definition VWAP_of_rows :: "trade list \<Rightarrow> vwap_row list" where
  "VWAP_of_rows rs = vwap_table (zip rs (map (\<lambda>t. price t * of_int (shares t)) rs))"

text \<open>\<open>get_VWAP_df\<close>: the table or the exception, the object and the heap.\<close>

definition get_VWAP_df ::
  "(string \<Rightarrow> char list) \<Rightarrow> bool \<Rightarrow> ITCH_trade \<Rightarrow> heap
     \<Rightarrow> (error + vwap_row list) \<times> ITCH_trade \<times> heap" where
  "get_VWAP_df fs include_cross_trade self h =
     (case (case (trade_df self, cross_trade_df self) of
              (Some t, Some c) \<Rightarrow> Inr (t, c, self, h)
            | _ \<Rightarrow>
                (case get_trade_data fs self h of
                   (Inl e, _, _, _) \<Rightarrow> Inl e
                 | (Inr (t, c), _, self, h) \<Rightarrow>
                     Inr (t, c, self\<lparr>trade_df := Some t, cross_trade_df := Some c\<rparr>, h))) of
        Inl e \<Rightarrow> (Inl e, self, h)
      | Inr (t, c, self, h) \<Rightarrow>
          (let total_trade_df =
                 (if include_cross_trade
                  then (let a = fst (copy h t); h = snd (copy h t);
                            b = fst (copy h c); h = snd (copy h c)
                        in alloc h (pd_concat (h ! a) (h ! b)))
                  else copy h t);
               VWAP_df = calculate_VWAP (snd total_trade_df) (fst total_trade_df)
           in (Inr (fst VWAP_df), self, snd VWAP_df)))"

subsection \<open>Example messages\<close>

text \<open>A type P payload: timestamp 14430000000000 ns (4 h 0 min 30 s), side B, 100
  shares, stock AAPL, price 1000000 (100 dollars).\<close>

definition msg_P_040030 :: "char list" where
  "msg_P_040030 =
     [CHR 0x00, CHR 0x01, CHR 0x00, CHR 0x00, CHR 0x0D, CHR 0x1F, CHR 0xBF, CHR 0x06,
      CHR 0x2C, CHR 0x00, CHR 0x00, CHR 0x00, CHR 0x00, CHR 0x00, CHR 0x00, CHR 0x00,
      CHR 0x00, CHR 0x00, CHR 0x42, CHR 0x00, CHR 0x00, CHR 0x00, CHR 0x64, CHR 0x41,
      CHR 0x41, CHR 0x50, CHR 0x4C, CHR 0x20, CHR 0x20, CHR 0x20, CHR 0x20, CHR 0x00,
      CHR 0x0F, CHR 0x42, CHR 0x40, CHR 0x00, CHR 0x00, CHR 0x00, CHR 0x00, CHR 0x00,
      CHR 0x00, CHR 0x00, CHR 0x00]"

text \<open>A type P payload: timestamp 18000000000000 ns (5 h), side S, 200 shares, stock
  AAPL, price 500000 (50 dollars).\<close>

definition msg_P_050000 :: "char list" where
  "msg_P_050000 =
     [CHR 0x00, CHR 0x01, CHR 0x00, CHR 0x00, CHR 0x10, CHR 0x5E, CHR 0xF3, CHR 0x9B,
      CHR 0x20, CHR 0x00, CHR 0x00, CHR 0x00, CHR 0x00, CHR 0x00, CHR 0x00, CHR 0x00,
      CHR 0x00, CHR 0x00, CHR 0x53, CHR 0x00, CHR 0x00, CHR 0x00, CHR 0xC8, CHR 0x41,
      CHR 0x41, CHR 0x50, CHR 0x4C, CHR 0x20, CHR 0x20, CHR 0x20, CHR 0x20, CHR 0x00,
      CHR 0x07, CHR 0xA1, CHR 0x20, CHR 0x00, CHR 0x00, CHR 0x00, CHR 0x00, CHR 0x00,
      CHR 0x00, CHR 0x00, CHR 0x00]"

text \<open>A type Q payload: timestamp 18000000000000 ns (5 h), 300 shares, stock AAPL,
  price 500000 (50 dollars), cross type O.\<close>

definition msg_Q_050000 :: "char list" where
  "msg_Q_050000 =
     [CHR 0x00, CHR 0x01, CHR 0x00, CHR 0x00, CHR 0x10, CHR 0x5E, CHR 0xF3, CHR 0x9B,
      CHR 0x20, CHR 0x00, CHR 0x00, CHR 0x00, CHR 0x00, CHR 0x00, CHR 0x00, CHR 0x00,
      CHR 0x01, CHR 0x2C, CHR 0x41, CHR 0x41, CHR 0x50, CHR 0x4C, CHR 0x20, CHR 0x20,
      CHR 0x20, CHR 0x20, CHR 0x00, CHR 0x07, CHR 0xA1, CHR 0x20, CHR 0x00, CHR 0x00,
      CHR 0x00, CHR 0x00, CHR 0x00, CHR 0x00, CHR 0x00, CHR 0x00, CHR 0x4F]"

subsection \<open>Groups of trades\<close>

text \<open>
  The vocabulary of the statements about the table: the key (hour, stock) of a trade
  and of a row of the table, and the sums of the shares and of the values
  \<open>price * shares\<close> over the trades of a key.
\<close>

definition trade_key :: "trade \<Rightarrow> int \<times> string" where
  "trade_key t = (end_time_hour t, stock t)"




subsection \<open>Message boundaries\<close>

text \<open>
  A state of the loop is the type byte just read, the handle and the two lists.
  \<open>start\<close> is the state in which \<open>get_trade_data\<close> enters the loop (lines 73 to 75).
  \<open>boundary s s'\<close> holds when the loop, started in \<open>s\<close>, comes back to its head in
  \<open>s'\<close> after some number of messages, each of them skipped or decoded without an
  exception.
\<close>

type_synonym loop_state = "char list \<times> handle \<times> trade list \<times> trade list"

definition start :: "char list \<Rightarrow> loop_state" where
  "start content =
     (let bin_data = snd (read 2 (gzip_open content))
      in (fst (read 1 bin_data), snd (read 1 bin_data), [], []))"

inductive boundary :: "loop_state \<Rightarrow> loop_state \<Rightarrow> bool" where
  here: "boundary s s"
| skipped:
    "boundary s (t, h, ts, cs) \<Longrightarrow> t \<in> set valid_types \<Longrightarrow> branch_of t = Skip n \<Longrightarrow>
     b1 = snd (read n h) \<Longrightarrow>
     boundary s (fst (read 1 b1), snd (read 1 b1), ts, cs)"
| non_cross:
    "boundary s (t, h, ts, cs) \<Longrightarrow> t \<in> set valid_types \<Longrightarrow> branch_of t = NonCrossTrade \<Longrightarrow>
     trade_message (fst (read 43 h)) = Inr r \<Longrightarrow> b2 = snd (read 2 (snd (read 43 h))) \<Longrightarrow>
     boundary s (fst (read 1 b2), snd (read 1 b2), ts @ [r], cs)"
| cross:
    "boundary s (t, h, ts, cs) \<Longrightarrow> t \<in> set valid_types \<Longrightarrow> branch_of t = CrossTrade \<Longrightarrow>
     cross_trade_message (fst (read 39 h)) = Inr r \<Longrightarrow> b2 = snd (read 2 (snd (read 39 h))) \<Longrightarrow>
     boundary s (fst (read 1 b2), snd (read 1 b2), ts, cs @ [r])"

subsection \<open>Example streams and objects\<close>

text \<open>The file system in which every path holds the given decompressed content.\<close>

definition file_system :: "char list \<Rightarrow> string \<Rightarrow> char list" where
  "file_system content path = content"

text \<open>An object on which \<open>get_trade_data\<close> has not run yet.\<close>

definition fresh :: ITCH_trade where
  "fresh = \<lparr>ITCH_data_path = ''itch.gz'', trade_df = None, cross_trade_df = None\<rparr>"

text \<open>Two framing bytes, then a type S message cut after 5 of its 13 payload bytes.\<close>

definition stream_short_skip :: "char list" where
  "stream_short_skip = [CHR 0x00, CHR 0x00] @ ''S'' @ replicate 5 (CHR 0x00)"

text \<open>Two framing bytes, then a type P message cut after 10 of its 43 payload bytes.\<close>

definition stream_short_P :: "char list" where
  "stream_short_P = [CHR 0x00, CHR 0x00] @ ''P'' @ take 10 msg_P_040030"

text \<open>Two framing bytes, then a type P message with only 1 of its 2 trailing bytes.\<close>

definition stream_short_padding :: "char list" where
  "stream_short_padding = [CHR 0x00, CHR 0x00] @ ''P'' @ msg_P_040030 @ [CHR 0x00]"

text \<open>Two framing bytes, a type P message with its 2 trailing bytes, then a byte 0
  where a message type is expected.\<close>

definition stream_bad_tag :: "char list" where
  "stream_bad_tag =
     [CHR 0x00, CHR 0x00] @ ''P'' @ msg_P_040030 @ [CHR 0x00, CHR 0x00] @ [CHR 0x00]"

text \<open>Two framing bytes, a type P message, a type Q message and a second type P
  message, each with its 2 trailing bytes.\<close>

definition stream_P_Q_P :: "char list" where
  "stream_P_Q_P =
     [CHR 0x00, CHR 0x00] @ ''P'' @ msg_P_040030 @ [CHR 0x00, CHR 0x00]
       @ ''Q'' @ msg_Q_050000 @ [CHR 0x00, CHR 0x00]
       @ ''P'' @ msg_P_050000 @ [CHR 0x00, CHR 0x00]"

subsection \<open>Example frames\<close>

text \<open>Two trades of one stock in the hours 10 and 11: 100 shares at 100 and 200
  shares at 50.\<close>

definition trades_10_11 :: "trade list" where
  "trades_10_11 =
     [\<lparr>time = ''9:15:00'', end_time_hour = 10, type = ''B'', shares = 100,
       stock = ''AAPL'', price = 100\<rparr>,
      \<lparr>time = ''10:20:00'', end_time_hour = 11, type = ''S'', shares = 200,
       stock = ''AAPL'', price = 50\<rparr>]"

text \<open>A trade of 0 shares, as a type P message with a shares field of four zero
  bytes decodes to.\<close>

definition trade_0_shares :: trade where
  "trade_0_shares =
     \<lparr>time = ''9:15:00'', end_time_hour = 10, type = ''B'', shares = 0,
      stock = ''AAPL'', price = 100\<rparr>"

section \<open>Properties\<close>

subsection \<open>Packing and unpacking\<close>

lemma unpack_uint_snoc: "unpack_uint (bs @ [c]) = 256 * unpack_uint bs + of_char c"
  by (simp add: unpack_uint_def)

lemma unpack_uint_zero_Cons: "unpack_uint (CHR 0x00 # bs) = unpack_uint bs"
  by (simp add: unpack_uint_def)

lemma of_char_less_256: "(of_char c :: nat) < 256"
proof -
  have "(of_char c :: nat) = of_char c mod 256" by (simp only: of_char_mod_256)
  also have "\<dots> < 256" by simp
  finally show ?thesis .
qed

lemma unpack_uint_bound: "unpack_uint bs < 256 ^ length bs"
proof (induction bs rule: rev_induct)
  case Nil
  show ?case by (simp add: unpack_uint_def)
next
  case (snoc c bs)
  have a: "(of_char c :: nat) < 256" by (rule of_char_less_256)
  have b: "unpack_uint bs + 1 \<le> 256 ^ length bs" using snoc.IH by simp
  have "256 * unpack_uint bs + of_char c < 256 * 256 ^ length bs" using a b by linarith
  then show ?case by (simp add: unpack_uint_snoc)
qed

lemma pack_unpack_uint: "length bs = n \<Longrightarrow> pack_uint n (unpack_uint bs) = bs"
proof (induction bs arbitrary: n rule: rev_induct)
  case Nil
  then show ?case by simp
next
  case (snoc c bs)
  then obtain m where n: "n = Suc m" and m: "length bs = m" by auto
  have lt: "(of_char c :: nat) < 256" by (rule of_char_less_256)
  have d: "(256 * unpack_uint bs + of_char c) div 256 = unpack_uint bs" using lt by simp
  have r: "(256 * unpack_uint bs + of_char c) mod 256 = (of_char c :: nat)" using lt by simp
  show ?case by (simp add: n unpack_uint_snoc d r snoc.IH [OF m])
qed

lemma length_pack_uint: "length (pack_uint n v) = n"
  by (induction n arbitrary: v) simp_all

lemma repack_field:
  "off + len \<le> length bs \<Longrightarrow> pack_uint len (unpack_uint (field off len bs)) = field off len bs"
  by (rule pack_unpack_uint) (simp add: field_def)

text \<open>
  C9. Two zero bytes in front of a field do not change its big-endian value, so the
  timestamp each decoder obtains after its pack-and-unpack step (\<open>record[2]\<close>) is the
  direct big-endian decode of the 6 timestamp bytes of the wire message, for a type P
  message (43 bytes) and for a type Q message (39 bytes).
\<close>

theorem timestamp_padding_refines_direct_decode:
  "unpack_uint (CHR 0x00 # CHR 0x00 # b) = unpack_uint b
   \<and> (length msg = 43 \<longrightarrow> trade_timestamp msg = decode_uint48_direct msg)
   \<and> (length msg = 39 \<longrightarrow> cross_trade_timestamp msg = decode_uint48_direct msg)"
  by (simp add: trade_timestamp_def cross_trade_timestamp_def decode_uint48_direct_def
      repack_trade_def repack_cross_trade_def field_def unpack_uint_zero_Cons)

theorem timestamp_padding_refines_direct_decode_witness:
  "length msg_P_040030 = 43 \<and> trade_timestamp msg_P_040030 = 14430000000000
   \<and> length msg_Q_050000 = 39 \<and> cross_trade_timestamp msg_Q_050000 = 18000000000000"
proof -
  have p: "length msg_P_040030 = 43" by (simp add: msg_P_040030_def)
  have q: "length msg_Q_050000 = 39" by (simp add: msg_Q_050000_def)
  have dp: "decode_uint48_direct msg_P_040030 = 14430000000000"
    by (simp add: decode_uint48_direct_def field_def unpack_uint_def msg_P_040030_def)
  have dq: "decode_uint48_direct msg_Q_050000 = 18000000000000"
    by (simp add: decode_uint48_direct_def field_def unpack_uint_def msg_Q_050000_def)
  show ?thesis
    using timestamp_padding_refines_direct_decode [of "[]" msg_P_040030]
      timestamp_padding_refines_direct_decode [of "[]" msg_Q_050000] p q dp dq
    by simp
qed

subsection \<open>Decimal rounding\<close>

lemma round_half_even_of_int: "round_half_even (of_int k) = k"
  by (simp add: round_half_even_def)



subsection \<open>The decoders in terms of the wire fields\<close>

lemma field_append:
  "b = a + n \<Longrightarrow> field a n xs @ field b m xs = field a (n + m) xs"
proof -
  assume b: "b = a + n"
  have "drop n (drop a xs) = drop (a + n) xs" by (simp add: add.commute)
  then show ?thesis by (simp add: field_def take_add b)
qed

lemma field_append2:
  "b = a + n \<Longrightarrow> field a n xs @ field b m xs @ ys = field a (n + m) xs @ ys"
  using field_append [of b a n xs m] by simp

lemma field_append_drop: "b = a + n \<Longrightarrow> field a n xs @ drop b xs = drop a xs"
proof -
  assume b: "b = a + n"
  have "drop n (drop a xs) = drop (a + n) xs" by (simp add: add.commute)
  then have "take n (drop a xs) @ drop (a + n) xs = drop a xs"
    using append_take_drop_id [of n "drop a xs"] by simp
  then show ?thesis by (simp add: field_def b)
qed

lemma field_to_end: "length xs \<le> a + n \<Longrightarrow> field a n xs = drop a xs"
  by (simp add: field_def)

lemma repack_trade_eq:
  assumes "length msg = 43"
  shows "repack_trade msg = take 4 msg @ [CHR 0x00, CHR 0x00] @ drop 4 msg"
proof -
  have "field 4 6 msg @ field 10 8 msg @ field 18 1 msg @ field 19 4 msg @ field 23 8 msg
          @ field 31 4 msg @ field 35 8 msg = drop 4 msg"
    using assms by (simp add: field_append field_append2 field_to_end field_append_drop)
  then show ?thesis
    using assms by (simp add: repack_trade_def repack_field) (simp add: field_def)
qed

lemma repack_cross_trade_eq:
  assumes "length msg = 39"
  shows "repack_cross_trade msg = take 4 msg @ [CHR 0x00, CHR 0x00] @ drop 4 msg"
proof -
  have "field 4 6 msg @ field 10 8 msg @ field 18 8 msg @ field 26 4 msg @ field 30 8 msg
          @ field 38 1 msg = drop 4 msg"
    using assms by (simp add: field_append field_append2 field_to_end field_append_drop)
  then show ?thesis
    using assms by (simp add: repack_cross_trade_def repack_field) (simp add: field_def)
qed

lemma trade_message_fields:
  assumes "length msg = 43"
  shows "trade_message msg =
     (case end_time_hour_of (time_str_of (decode_uint48_direct msg)) of
        Inl e \<Rightarrow> Inl e
      | Inr hour \<Rightarrow>
          (case decode_ascii (field 18 1 msg) of
             Inl e \<Rightarrow> Inl e
           | Inr side \<Rightarrow>
               (case decode_ascii (field 23 8 msg) of
                  Inl e \<Rightarrow> Inl e
                | Inr symbol \<Rightarrow>
                    Inr \<lparr>time = time_str_of (decode_uint48_direct msg), end_time_hour = hour,
                         type = side, shares = int (unpack_uint (field 19 4 msg)),
                         stock = strip symbol,
                         price = decode_price (unpack_uint (field 31 4 msg))\<rparr>)))"
proof -
  have f2: "field 4 8 (repack_trade msg) = CHR 0x00 # CHR 0x00 # field 4 6 msg"
    using assms by (simp add: repack_trade_eq field_def)
  have f4: "field 20 1 (repack_trade msg) = field 18 1 msg"
    using assms by (simp add: repack_trade_eq field_def)
  have f5: "field 21 4 (repack_trade msg) = field 19 4 msg"
    using assms by (simp add: repack_trade_eq field_def)
  have f6: "field 25 8 (repack_trade msg) = field 23 8 msg"
    using assms by (simp add: repack_trade_eq field_def)
  have f7: "field 33 4 (repack_trade msg) = field 31 4 msg"
    using assms by (simp add: repack_trade_eq field_def)
  show ?thesis
    unfolding trade_message_def trade_timestamp_def Let_def f2 f4 f5 f6 f7 unpack_uint_zero_Cons
      decode_uint48_direct_def
    using assms by simp
qed

lemma cross_trade_message_fields:
  assumes "length msg = 39"
  shows "cross_trade_message msg =
     (case end_time_hour_of (time_str_of (decode_uint48_direct msg)) of
        Inl e \<Rightarrow> Inl e
      | Inr hour \<Rightarrow>
          (case decode_ascii (field 38 1 msg) of
             Inl e \<Rightarrow> Inl e
           | Inr cross \<Rightarrow>
               (case decode_ascii (field 18 8 msg) of
                  Inl e \<Rightarrow> Inl e
                | Inr symbol \<Rightarrow>
                    Inr \<lparr>time = time_str_of (decode_uint48_direct msg), end_time_hour = hour,
                         type = cross, shares = int (unpack_uint (field 10 8 msg)),
                         stock = strip symbol,
                         price = decode_price (unpack_uint (field 26 4 msg))\<rparr>)))"
proof -
  have f2: "field 4 8 (repack_cross_trade msg) = CHR 0x00 # CHR 0x00 # field 4 6 msg"
    using assms by (simp add: repack_cross_trade_eq field_def)
  have f3: "field 12 8 (repack_cross_trade msg) = field 10 8 msg"
    using assms by (simp add: repack_cross_trade_eq field_def)
  have f4: "field 20 8 (repack_cross_trade msg) = field 18 8 msg"
    using assms by (simp add: repack_cross_trade_eq field_def)
  have f5: "field 28 4 (repack_cross_trade msg) = field 26 4 msg"
    using assms by (simp add: repack_cross_trade_eq field_def)
  have f7: "field 40 1 (repack_cross_trade msg) = field 38 1 msg"
    using assms by (simp add: repack_cross_trade_eq field_def)
  show ?thesis
    unfolding cross_trade_message_def cross_trade_timestamp_def Let_def f2 f3 f4 f5 f7
      unpack_uint_zero_Cons
      decode_uint48_direct_def
    using assms by simp
qed

lemma round_half_even_divide:
  assumes "0 < b"
  shows "round_half_even (of_nat a / of_nat b) =
     (let q = int (a div b); r = a mod b
      in if 2 * r < b then q else if b < 2 * r then q + 1 else if even q then q else q + 1)"
proof -
  have fl: "\<lfloor>(of_nat a / of_nat b :: rat)\<rfloor> = int (a div b)"
    by (simp add: floor_divide_of_nat_eq)
  have "(of_nat a :: rat) = of_nat (a div b * b + a mod b)" by simp
  also have "\<dots> = of_nat (a div b) * of_nat b + of_nat (a mod b)"
    by (simp only: of_nat_add of_nat_mult)
  finally have "(of_nat a / of_nat b :: rat) = of_nat (a div b) + of_nat (a mod b) / of_nat b"
    using assms by (simp add: field_simps)
  then have d: "(of_nat a / of_nat b :: rat) - of_int (int (a div b)) = of_nat (a mod b) / of_nat b"
    by simp
  have lt: "(of_nat (a mod b) / of_nat b < (1 / 2 :: rat)) = (2 * (a mod b) < b)"
  proof -
    have "(of_nat (a mod b) / of_nat b < (1 / 2 :: rat)) = ((of_nat (2 * (a mod b)) :: rat) < of_nat b)"
      using assms by (simp add: field_simps)
    then show ?thesis by (simp only: of_nat_less_iff)
  qed
  have gt: "((1 / 2 :: rat) < of_nat (a mod b) / of_nat b) = (b < 2 * (a mod b))"
  proof -
    have "((1 / 2 :: rat) < of_nat (a mod b) / of_nat b) = ((of_nat b :: rat) < of_nat (2 * (a mod b)))"
      using assms by (simp add: field_simps)
    then show ?thesis by (simp only: of_nat_less_iff)
  qed
  show ?thesis
    unfolding round_half_even_def Let_def fl d lt gt by simp
qed

lemma timedelta_of_ns_eq:
  "timedelta_of_ns ns =
     (let q = ns div 1000; r = ns mod 1000
      in if r < 500 then q else if 500 < r then q + 1 else if even q then q else q + 1)"
proof -
  have "(of_nat ns / 1000 :: rat) = of_nat ns / of_nat 1000" by simp
  then have "round_half_even (of_nat ns / 1000) =
     (let q = int (ns div 1000); r = ns mod 1000
      in if 2 * r < 1000 then q else if 1000 < 2 * r then q + 1 else if even q then q else q + 1)"
    using round_half_even_divide [of 1000 ns] by simp
  then show ?thesis
    by (simp add: timedelta_of_ns_def Let_def nat_add_distrib)
qed

subsection \<open>The hour of a time string\<close>

lemma digit_char_props:
  assumes "d < 10"
  shows "is_digit (digit_char d)" and "(of_char (digit_char d) :: nat) - 48 = d"
    and "digit_char d \<noteq> CHR '':''" and "digit_char d \<noteq> CHR ''.''"
proof -
  from assms have "d = 0 \<or> d = 1 \<or> d = 2 \<or> d = 3 \<or> d = 4 \<or> d = 5 \<or> d = 6 \<or> d = 7 \<or> d = 8 \<or> d = 9"
    by arith
  then show "is_digit (digit_char d)" and "(of_char (digit_char d) :: nat) - 48 = d"
    and "digit_char d \<noteq> CHR '':''" and "digit_char d \<noteq> CHR ''.''"
    by (auto simp: digit_char_def is_digit_def)
qed

lemma str_nat_props:
  "str_nat n \<noteq> []"
  "list_all is_digit (str_nat n)"
  "foldl (\<lambda>a c. 10 * a + (of_char c - 48)) 0 (str_nat n) = n"
  "CHR '':'' \<notin> set (str_nat n)"
  "CHR ''.'' \<notin> set (str_nat n)"
proof (induction n rule: str_nat.induct)
  case (1 n)
  {
    case 1
    show ?case by (subst str_nat.simps) simp
  next
    case 2
    show ?case
    proof (cases "n < 10")
      case True
      then show ?thesis by (subst str_nat.simps) (simp add: digit_char_props)
    next
      case False
      then show ?thesis
        using "1.IH"(2) by (subst str_nat.simps) (simp add: digit_char_props)
    qed
  next
    case 3
    show ?case
    proof (cases "n < 10")
      case True
      then show ?thesis by (subst str_nat.simps) (simp add: digit_char_props)
    next
      case False
      have m: "n mod 10 < 10" by simp
      show ?thesis
        using "1.IH"(3) [OF False] False
        by (subst str_nat.simps) (simp add: digit_char_props(2) [OF m])
    qed
  next
    case 4
    show ?case
    proof (cases "n < 10")
      case True
      then show ?thesis using digit_char_props(3) [of n] by (subst str_nat.simps) auto
    next
      case False
      have m: "n mod 10 < 10" by simp
      show ?thesis
        using "1.IH"(4) [OF False] False digit_char_props(3) [OF m]
        by (subst str_nat.simps) auto
    qed
  next
    case 5
    show ?case
    proof (cases "n < 10")
      case True
      then show ?thesis using digit_char_props(4) [of n] by (subst str_nat.simps) auto
    next
      case False
      have m: "n mod 10 < 10" by simp
      show ?thesis
        using "1.IH"(5) [OF False] False digit_char_props(4) [OF m]
        by (subst str_nat.simps) auto
    qed
  }
qed

lemma py_int_str_nat: "py_int (str_nat n) = Inr (int n)"
  by (simp add: py_int_def str_nat_props)


lemma split_first_hours:
  assumes "CHR '':'' \<notin> set H" and "CHR ''.'' \<notin> set H"
  shows "split_first (CHR '':'') (split_first (CHR ''.'') (H @ CHR '':'' # R)) = H"
proof -
  have "takeWhile (\<lambda>c. c \<noteq> CHR ''.'') (H @ CHR '':'' # R) =
        H @ takeWhile (\<lambda>c. c \<noteq> CHR ''.'') (CHR '':'' # R)"
    using assms(2) by (intro takeWhile_append2) auto
  also have "\<dots> = H @ CHR '':'' # takeWhile (\<lambda>c. c \<noteq> CHR ''.'') R" by simp
  finally have a: "split_first (CHR ''.'') (H @ CHR '':'' # R) =
      H @ CHR '':'' # takeWhile (\<lambda>c. c \<noteq> CHR ''.'') R"
    by (simp only: split_first_def)
  have "takeWhile (\<lambda>c. c \<noteq> CHR '':'') (H @ CHR '':'' # takeWhile (\<lambda>c. c \<noteq> CHR ''.'') R) =
        H @ takeWhile (\<lambda>c. c \<noteq> CHR '':'') (CHR '':'' # takeWhile (\<lambda>c. c \<noteq> CHR ''.'') R)"
    using assms(1) by (intro takeWhile_append2) auto
  also have "\<dots> = H" by simp
  finally have b: "takeWhile (\<lambda>c. c \<noteq> CHR '':'')
      (H @ CHR '':'' # takeWhile (\<lambda>c. c \<noteq> CHR ''.'') R) = H" .
  show ?thesis
    unfolding a unfolding split_first_def by (rule b)
qed

lemma hours_of_microseconds:
  assumes "us < (86400000000 :: nat)"
  shows "us div (86400 * 1000000) = 0"
    and "(us div 1000000) mod 86400 div 60 div 60 = us div 3600000000"
proof -
  show "us div (86400 * 1000000) = 0" using assms by simp
  have "us < 86400 * 1000000" using assms by simp
  then have a: "us div 1000000 < 86400" by (simp only: div_less_iff_less_mult zero_less_numeral)
  have "(us div 1000000) mod 86400 div 60 div 60 = us div 1000000 div 60 div 60"
    using a by (simp only: mod_less)
  also have "\<dots> = us div (1000000 * 60 * 60)"
    by (simp only: div_mult2_eq)
  also have "\<dots> = us div 3600000000" by simp
  finally show "(us div 1000000) mod 86400 div 60 div 60 = us div 3600000000" .
qed

lemma str_timedelta_hours:
  assumes "us < 86400000000"
  shows "\<exists>R. str_timedelta us = str_nat (us div 3600000000) @ CHR '':'' # R"
  unfolding str_timedelta_def Let_def hours_of_microseconds [OF assms]
  by (cases "us mod 1000000 = 0") simp_all

text \<open>
  For a timestamp that \<open>timedelta\<close> holds as less than one day, the hour the decoders
  derive is the whole hours of the time plus 1; from one day on the time string starts
  with the days and \<open>int\<close> raises \<open>ValueError\<close>.
\<close>

lemma end_time_hour_of_time_str:
  assumes "timedelta_of_ns ns < 86400000000"
  shows "end_time_hour_of (time_str_of ns) = Inr (int (timedelta_of_ns ns div 3600000000) + 1)"
proof -
  obtain R where "str_timedelta (timedelta_of_ns ns) =
      str_nat (timedelta_of_ns ns div 3600000000) @ CHR '':'' # R"
    using str_timedelta_hours [OF assms] by blast
  then have "split_first (CHR '':'') (time_str_of ns) = str_nat (timedelta_of_ns ns div 3600000000)"
    by (simp only: time_str_of_def split_first_hours [OF str_nat_props(4,5)])
  then show ?thesis
    by (simp only: end_time_hour_of_def py_int_str_nat sum.case)
qed

lemma end_time_hour_of_one_day:
  "time_str_of 86400000000000 = ''1 day, 0:00:00''"
  "end_time_hour_of (time_str_of 86400000000000) = Inl ValueError"
proof -
  have t: "timedelta_of_ns 86400000000000 = 86400000000"
    by (simp add: timedelta_of_ns_eq)
  have s: "str_timedelta 86400000000 = ''1 day, 0:00:00''"
    by (simp add: str_timedelta_def str_nat02_def Let_def str_nat.simps digit_char_def)
  show a: "time_str_of 86400000000000 = ''1 day, 0:00:00''"
    by (simp add: time_str_of_def t s split_first_def)
  show "end_time_hour_of (time_str_of 86400000000000) = Inl ValueError"
    unfolding a by (simp add: end_time_hour_of_def py_int_def is_digit_def split_first_def)
qed

subsection \<open>The decoders on the example messages\<close>

lemma round_half_even_numeral: "round_half_even (numeral n) = numeral n"
  using round_half_even_of_int [of "numeral n"] by simp

lemma str_timedelta_4_00_30: "str_timedelta 14430000000 = ''4:00:30''"
  by (simp add: str_timedelta_def str_nat02_def Let_def str_nat.simps digit_char_def)

lemma str_timedelta_5_00_00: "str_timedelta 18000000000 = ''5:00:00''"
  by (simp add: str_timedelta_def str_nat02_def Let_def str_nat.simps digit_char_def)

lemma time_str_of_4_00_30: "time_str_of 14430000000000 = ''4:00:30''"
proof -
  have "timedelta_of_ns 14430000000000 = 14430000000"
    by (simp add: timedelta_of_ns_eq)
  then show ?thesis
    by (simp add: time_str_of_def str_timedelta_4_00_30 split_first_def)
qed

lemma time_str_of_5_00_00: "time_str_of 18000000000000 = ''5:00:00''"
proof -
  have "timedelta_of_ns 18000000000000 = 18000000000"
    by (simp add: timedelta_of_ns_eq)
  then show ?thesis
    by (simp add: time_str_of_def str_timedelta_5_00_00 split_first_def)
qed

lemma end_time_hour_of_4_00_30: "end_time_hour_of ''4:00:30'' = Inr 5"
  by (simp add: end_time_hour_of_def py_int_def is_digit_def split_first_def)

lemma end_time_hour_of_5_00_00: "end_time_hour_of ''5:00:00'' = Inr 6"
  by (simp add: end_time_hour_of_def py_int_def is_digit_def split_first_def)

lemma decode_price_1000000: "decode_price 1000000 = 100"
  by (simp add: decode_price_def round3_def round_half_even_numeral)

lemma decode_price_500000: "decode_price 500000 = 50"
  by (simp add: decode_price_def round3_def round_half_even_numeral)

lemma length_msg_P_040030: "length msg_P_040030 = 43"
  by (simp add: msg_P_040030_def)

lemma length_msg_P_050000: "length msg_P_050000 = 43"
  by (simp add: msg_P_050000_def)

lemma length_msg_Q_050000: "length msg_Q_050000 = 39"
  by (simp add: msg_Q_050000_def)

lemma trade_message_msg_P_040030:
  "trade_message msg_P_040030 =
     Inr \<lparr>time = ''4:00:30'', end_time_hour = 5, type = ''B'', shares = 100,
          stock = ''AAPL'', price = 100\<rparr>"
proof -
  have ts: "decode_uint48_direct msg_P_040030 = 14430000000000"
    by (simp add: decode_uint48_direct_def field_def unpack_uint_def msg_P_040030_def)
  have side: "decode_ascii (field 18 1 msg_P_040030) = Inr ''B''"
    by (simp add: decode_ascii_def field_def msg_P_040030_def)
  have sym: "decode_ascii (field 23 8 msg_P_040030) = Inr ''AAPL    ''"
    by (simp add: decode_ascii_def field_def msg_P_040030_def)
  have st: "strip ''AAPL    '' = ''AAPL''"
    by (simp add: strip_def is_space_def)
  have sh: "unpack_uint (field 19 4 msg_P_040030) = 100"
    by (simp add: field_def unpack_uint_def msg_P_040030_def)
  have pr: "unpack_uint (field 31 4 msg_P_040030) = 1000000"
    by (simp add: field_def unpack_uint_def msg_P_040030_def)
  show ?thesis
    unfolding trade_message_fields [OF length_msg_P_040030] ts time_str_of_4_00_30
      end_time_hour_of_4_00_30 side sym st sh pr decode_price_1000000
    by (simp add: st)
qed

lemma trade_message_msg_P_050000:
  "trade_message msg_P_050000 =
     Inr \<lparr>time = ''5:00:00'', end_time_hour = 6, type = ''S'', shares = 200,
          stock = ''AAPL'', price = 50\<rparr>"
proof -
  have ts: "decode_uint48_direct msg_P_050000 = 18000000000000"
    by (simp add: decode_uint48_direct_def field_def unpack_uint_def msg_P_050000_def)
  have side: "decode_ascii (field 18 1 msg_P_050000) = Inr ''S''"
    by (simp add: decode_ascii_def field_def msg_P_050000_def)
  have sym: "decode_ascii (field 23 8 msg_P_050000) = Inr ''AAPL    ''"
    by (simp add: decode_ascii_def field_def msg_P_050000_def)
  have st: "strip ''AAPL    '' = ''AAPL''"
    by (simp add: strip_def is_space_def)
  have sh: "unpack_uint (field 19 4 msg_P_050000) = 200"
    by (simp add: field_def unpack_uint_def msg_P_050000_def)
  have pr: "unpack_uint (field 31 4 msg_P_050000) = 500000"
    by (simp add: field_def unpack_uint_def msg_P_050000_def)
  show ?thesis
    unfolding trade_message_fields [OF length_msg_P_050000] ts time_str_of_5_00_00
      end_time_hour_of_5_00_00 side sym st sh pr decode_price_500000
    by (simp add: st)
qed

lemma cross_trade_message_msg_Q_050000:
  "cross_trade_message msg_Q_050000 =
     Inr \<lparr>time = ''5:00:00'', end_time_hour = 6, type = ''O'', shares = 300,
          stock = ''AAPL'', price = 50\<rparr>"
proof -
  have ts: "decode_uint48_direct msg_Q_050000 = 18000000000000"
    by (simp add: decode_uint48_direct_def field_def unpack_uint_def msg_Q_050000_def)
  have cross: "decode_ascii (field 38 1 msg_Q_050000) = Inr ''O''"
    by (simp add: decode_ascii_def field_def msg_Q_050000_def)
  have sym: "decode_ascii (field 18 8 msg_Q_050000) = Inr ''AAPL    ''"
    by (simp add: decode_ascii_def field_def msg_Q_050000_def)
  have st: "strip ''AAPL    '' = ''AAPL''"
    by (simp add: strip_def is_space_def)
  have sh: "unpack_uint (field 10 8 msg_Q_050000) = 300"
    by (simp add: field_def unpack_uint_def msg_Q_050000_def)
  have pr: "unpack_uint (field 26 4 msg_Q_050000) = 500000"
    by (simp add: field_def unpack_uint_def msg_Q_050000_def)
  show ?thesis
    unfolding cross_trade_message_fields [OF length_msg_Q_050000] ts time_str_of_5_00_00
      end_time_hour_of_5_00_00 cross sym st sh pr decode_price_500000
    by (simp add: st)
qed

text \<open>
  C2. The type P message with the timestamp 4 * 3600 * 1e9 + 30 * 1e9 ns decodes to
  the hour 5, and the one with the timestamp 5 * 3600 * 1e9 ns, an hour boundary, to
  the hour 6. The time string of the first is \<open>4:00:30\<close>, not \<open>04:00:30\<close>:
  \<open>str(timedelta)\<close> does not pad the hours, although the comment of line 36 announces
  the format HH:MM:SS.
\<close>

theorem trade_message_hour_and_time_string:
  "trade_message msg_P_040030 =
     Inr \<lparr>time = ''4:00:30'', end_time_hour = 5, type = ''B'', shares = 100,
          stock = ''AAPL'', price = 100\<rparr>
   \<and> trade_message msg_P_050000 =
     Inr \<lparr>time = ''5:00:00'', end_time_hour = 6, type = ''S'', shares = 200,
          stock = ''AAPL'', price = 50\<rparr>
   \<and> time_str_of 14430000000000 \<noteq> ''04:00:30''"
  by (simp add: trade_message_msg_P_040030 trade_message_msg_P_050000 time_str_of_4_00_30)

subsection \<open>The message loop\<close>

lemma valid_types_nonempty: "t \<in> set valid_types \<Longrightarrow> t \<noteq> []"
  by (auto simp: valid_types_def)

lemma P_valid: "''P'' \<in> set valid_types" and Q_valid: "''Q'' \<in> set valid_types"
  and S_valid: "''S'' \<in> set valid_types"
  by (simp_all add: valid_types_def)

lemma branch_of_P: "branch_of ''P'' = NonCrossTrade" and branch_of_Q: "branch_of ''Q'' = CrossTrade"
  and branch_of_S: "branch_of ''S'' = Skip 13"
  by (simp_all add: branch_of_def)

lemma loop_eof: "loop [] h ts cs = (Inr (ts, cs), h)"
  by (simp add: loop.simps)

lemma loop_invalid:
  "t \<noteq> [] \<Longrightarrow> t \<notin> set valid_types \<Longrightarrow> loop t h ts cs = (Inl AssertionError, h)"
  by (simp add: loop.simps)

lemma loop_skip:
  assumes "t \<in> set valid_types" and "branch_of t = Skip n"
  shows "loop t h ts cs =
           loop (fst (read 1 (snd (read n h)))) (snd (read 1 (snd (read n h)))) ts cs"
  using assms valid_types_nonempty [OF assms(1)]
  by (subst loop.simps) (simp add: Let_def)

lemma loop_P:
  "loop ''P'' h ts cs =
     (case trade_message (fst (read 43 h)) of
        Inl e \<Rightarrow> (Inl e, snd (read 43 h))
      | Inr r \<Rightarrow>
          loop (fst (read 1 (snd (read 2 (snd (read 43 h))))))
            (snd (read 1 (snd (read 2 (snd (read 43 h)))))) (ts @ [r]) cs)"
  by (subst loop.simps) (simp add: Let_def P_valid branch_of_P split: sum.splits)

lemma loop_Q:
  "loop ''Q'' h ts cs =
     (case cross_trade_message (fst (read 39 h)) of
        Inl e \<Rightarrow> (Inl e, snd (read 39 h))
      | Inr r \<Rightarrow>
          loop (fst (read 1 (snd (read 2 (snd (read 39 h))))))
            (snd (read 1 (snd (read 2 (snd (read 39 h)))))) ts (cs @ [r]))"
  by (subst loop.simps) (simp add: Let_def Q_valid branch_of_Q split: sum.splits)

lemma read_exhausted:
  "length (remaining h) \<le> n \<Longrightarrow> fst (read 1 (snd (read n h))) = []"
  by (simp add: read_def)

lemma trade_message_short: "length msg \<noteq> 43 \<Longrightarrow> trade_message msg = Inl StructError"
  by (simp add: trade_message_def)

lemma cross_trade_message_short: "length msg \<noteq> 39 \<Longrightarrow> cross_trade_message msg = Inl StructError"
  by (simp add: cross_trade_message_def)

lemma boundary_loop:
  "boundary s s' \<Longrightarrow>
   loop (fst s) (fst (snd s)) (fst (snd (snd s))) (snd (snd (snd s))) =
   loop (fst s') (fst (snd s')) (fst (snd (snd s'))) (snd (snd (snd s')))"
proof (induction rule: boundary.induct)
  case (here s)
  show ?case by simp
next
  case (skipped s t h ts cs n b1)
  then show ?case by (simp add: loop_skip)
next
  case (non_cross s t h ts cs r b2)
  have "t = ''P''"
    using non_cross.hyps(2,3) by (auto simp: valid_types_def branch_of_def)
  then show ?case using non_cross by (simp add: loop_P)
next
  case (cross s t h ts cs r b2)
  have "t = ''Q''"
    using cross.hyps(2,3) by (auto simp: valid_types_def branch_of_def)
  then show ?case using cross by (simp add: loop_Q)
qed

lemma closed_read: "closed (snd (read n h)) = closed h"
  by (simp add: read_def)

lemma loop_closed: "closed (snd (loop t h ts cs)) = closed h"
proof (induction t h ts cs rule: loop.induct)
  case (1 msg_type bin_data trade_list cross_trade_list)
  show ?case
  proof (cases "msg_type = [] \<or> msg_type \<notin> set valid_types")
    case True
    then show ?thesis by (auto simp: loop.simps)
  next
    case False
    then have ne: "msg_type \<noteq> []" and v: "msg_type \<in> set valid_types" by auto
    show ?thesis
    proof (cases "branch_of msg_type")
      case (Skip n)
      show ?thesis
        using "1.IH"(1) [OF ne _ Skip refl] v
        by (simp add: loop_skip [OF v Skip] closed_read)
    next
      case NonCrossTrade
      then have t: "msg_type = ''P''"
        using v by (auto simp: valid_types_def branch_of_def)
      show ?thesis
      proof (cases "trade_message (fst (read 43 bin_data))")
        case (Inl e)
        then show ?thesis by (simp add: t loop_P closed_read)
      next
        case (Inr r)
        show ?thesis
          using "1.IH"(2) [OF ne _ NonCrossTrade refl refl Inr refl] v Inr
          by (simp add: t loop_P closed_read)
      qed
    next
      case CrossTrade
      then have t: "msg_type = ''Q''"
        using v by (auto simp: valid_types_def branch_of_def)
      show ?thesis
      proof (cases "cross_trade_message (fst (read 39 bin_data))")
        case (Inl e)
        then show ?thesis by (simp add: t loop_Q closed_read)
      next
        case (Inr r)
        show ?thesis
          using "1.IH"(3) [OF ne _ CrossTrade refl refl Inr refl] v Inr
          by (simp add: t loop_Q closed_read)
      qed
    qed
  qed
qed

subsection \<open>get\_trade\_data on the example streams\<close>

lemma get_trade_data_error:
  assumes "start (fs (ITCH_data_path self)) = (t, h, [], [])"
    and "loop t h [] [] = (Inl e, h')"
  shows "get_trade_data fs self hp = (Inl e, h', self, hp)"
  using assms by (simp add: get_trade_data_def start_def Let_def)

lemma get_trade_data_ok:
  assumes "start (fs (ITCH_data_path self)) = (t, h, [], [])"
    and "loop t h [] [] = (Inr (ts, cs), h')"
  shows "get_trade_data fs self hp =
           (Inr (length hp, Suc (length hp)), h',
            self\<lparr>trade_df := Some (length hp), cross_trade_df := Some (Suc (length hp))\<rparr>,
            hp @ [DataFrame ts, DataFrame cs])"
  using assms by (simp add: get_trade_data_def start_def Let_def alloc_def)

lemma start_eq:
  "start (c1 # c2 # c # rest) = ([c], \<lparr>remaining = rest, closed = False\<rparr>, [], [])"
  by (simp add: start_def read_def gzip_open_def)

lemma read_payload:
  "length msg = n \<Longrightarrow> fst (read n \<lparr>remaining = msg @ rest, closed = b\<rparr>) = msg"
  "length msg = n \<Longrightarrow> snd (read n \<lparr>remaining = msg @ rest, closed = b\<rparr>) = \<lparr>remaining = rest, closed = b\<rparr>"
  by (simp_all add: read_def)

lemma read_1: 
  "read (Suc 0) \<lparr>remaining = c # rest, closed = b\<rparr> = ([c], \<lparr>remaining = rest, closed = b\<rparr>)"
  "read (Suc 0) \<lparr>remaining = [], closed = b\<rparr> = ([], \<lparr>remaining = [], closed = b\<rparr>)"
  by (simp_all add: read_def)

lemma read_2:
  "snd (read 2 \<lparr>remaining = c1 # c2 # rest, closed = b\<rparr>) = \<lparr>remaining = rest, closed = b\<rparr>"
  "snd (read 2 \<lparr>remaining = [c1], closed = b\<rparr>) = \<lparr>remaining = [], closed = b\<rparr>"
  by (simp_all add: read_def)

lemma get_trade_data_short_skip:
  "get_trade_data (file_system stream_short_skip) fresh [] =
     (Inr (0, 1), \<lparr>remaining = [], closed = False\<rparr>,
      fresh\<lparr>trade_df := Some 0, cross_trade_df := Some 1\<rparr>, [DataFrame [], DataFrame []])"
proof -
  have s: "start (file_system stream_short_skip (ITCH_data_path fresh)) =
             (''S'', \<lparr>remaining = replicate 5 (CHR 0x00), closed = False\<rparr>, [], [])"
    by (simp add: file_system_def stream_short_skip_def start_eq)
  have l: "loop ''S'' \<lparr>remaining = replicate 5 (CHR 0x00), closed = False\<rparr> [] [] =
             (Inr ([], []), \<lparr>remaining = [], closed = False\<rparr>)"
    by (simp add: loop_skip [OF S_valid branch_of_S] read_def loop_eof)
  show ?thesis using get_trade_data_ok [where fs = "file_system stream_short_skip" and self = fresh and hp = "[]", OF s l] by simp
qed

lemma get_trade_data_short_P:
  "get_trade_data (file_system stream_short_P) fresh [] =
     (Inl StructError, \<lparr>remaining = [], closed = False\<rparr>, fresh, [])"
proof -
  have s: "start (file_system stream_short_P (ITCH_data_path fresh)) =
             (''P'', \<lparr>remaining = take 10 msg_P_040030, closed = False\<rparr>, [], [])"
    by (simp add: file_system_def stream_short_P_def start_eq)
  have l: "loop ''P'' \<lparr>remaining = take 10 msg_P_040030, closed = False\<rparr> [] [] =
             (Inl StructError, \<lparr>remaining = [], closed = False\<rparr>)"
    by (simp add: loop_P read_def trade_message_short length_msg_P_040030)
  show ?thesis using get_trade_data_error [where fs = "file_system stream_short_P" and self = fresh and hp = "[]", OF s l] by simp
qed

lemma get_trade_data_short_padding:
  "get_trade_data (file_system stream_short_padding) fresh [] =
     (Inr (0, 1), \<lparr>remaining = [], closed = False\<rparr>,
      fresh\<lparr>trade_df := Some 0, cross_trade_df := Some 1\<rparr>,
      [DataFrame [\<lparr>time = ''4:00:30'', end_time_hour = 5, type = ''B'', shares = 100,
                   stock = ''AAPL'', price = 100\<rparr>], DataFrame []])"
proof -
  have s: "start (file_system stream_short_padding (ITCH_data_path fresh)) =
             (''P'', \<lparr>remaining = msg_P_040030 @ [CHR 0x00], closed = False\<rparr>, [], [])"
    by (simp add: file_system_def stream_short_padding_def start_eq)
  have l: "loop ''P'' \<lparr>remaining = msg_P_040030 @ [CHR 0x00], closed = False\<rparr> [] [] =
             (Inr ([\<lparr>time = ''4:00:30'', end_time_hour = 5, type = ''B'', shares = 100,
                   stock = ''AAPL'', price = 100\<rparr>], []), \<lparr>remaining = [], closed = False\<rparr>)"
    by (simp add: loop_P read_payload [OF length_msg_P_040030] trade_message_msg_P_040030
        read_2 read_1 loop_eof)
  show ?thesis using get_trade_data_ok [where fs = "file_system stream_short_padding" and self = fresh and hp = "[]", OF s l] by simp
qed

lemma boundary_bad_tag:
  "boundary (start stream_bad_tag)
     ([CHR 0x00], \<lparr>remaining = [], closed = False\<rparr>,
      [\<lparr>time = ''4:00:30'', end_time_hour = 5, type = ''B'', shares = 100,
        stock = ''AAPL'', price = 100\<rparr>], [])"
proof -
  have s: "start stream_bad_tag =
      (''P'', \<lparr>remaining = msg_P_040030 @ [CHR 0x00, CHR 0x00, CHR 0x00], closed = False\<rparr>, [], [])"
    by (simp add: stream_bad_tag_def start_eq)
  have "boundary (start stream_bad_tag)
      (''P'', \<lparr>remaining = msg_P_040030 @ [CHR 0x00, CHR 0x00, CHR 0x00], closed = False\<rparr>, [], [])"
    unfolding s by (rule boundary.here)
  from boundary.non_cross [OF this P_valid branch_of_P _ refl,
      of "\<lparr>time = ''4:00:30'', end_time_hour = 5, type = ''B'', shares = 100,
        stock = ''AAPL'', price = 100\<rparr>"]
  show ?thesis
    by (simp add: read_payload [OF length_msg_P_040030] trade_message_msg_P_040030 read_2 read_1)
qed

lemma get_trade_data_P_Q_P:
  "get_trade_data (file_system stream_P_Q_P) fresh [] =
     (Inr (0, 1), \<lparr>remaining = [], closed = False\<rparr>,
      fresh\<lparr>trade_df := Some 0, cross_trade_df := Some 1\<rparr>,
      [DataFrame [\<lparr>time = ''4:00:30'', end_time_hour = 5, type = ''B'', shares = 100,
                   stock = ''AAPL'', price = 100\<rparr>,
                  \<lparr>time = ''5:00:00'', end_time_hour = 6, type = ''S'', shares = 200,
                   stock = ''AAPL'', price = 50\<rparr>],
       DataFrame [\<lparr>time = ''5:00:00'', end_time_hour = 6, type = ''O'', shares = 300,
                   stock = ''AAPL'', price = 50\<rparr>]])"
proof -
  have s: "start (file_system stream_P_Q_P (ITCH_data_path fresh)) =
             (''P'', \<lparr>remaining = msg_P_040030 @ [CHR 0x00, CHR 0x00]
       @ ''Q'' @ msg_Q_050000 @ [CHR 0x00, CHR 0x00]
       @ ''P'' @ msg_P_050000 @ [CHR 0x00, CHR 0x00], closed = False\<rparr>, [], [])"
    by (simp add: file_system_def stream_P_Q_P_def start_eq)
  have l3: "loop ''P'' \<lparr>remaining = msg_P_050000 @ [CHR 0x00, CHR 0x00], closed = False\<rparr> ts cs =
     (Inr (ts @ [\<lparr>time = ''5:00:00'', end_time_hour = 6, type = ''S'', shares = 200,
                   stock = ''AAPL'', price = 50\<rparr>], cs), \<lparr>remaining = [], closed = False\<rparr>)" for ts cs
    by (simp add: loop_P read_payload [OF length_msg_P_050000] trade_message_msg_P_050000
        read_2 read_1 loop_eof)
  have l2: "loop ''Q'' \<lparr>remaining = msg_Q_050000 @ [CHR 0x00, CHR 0x00]
       @ ''P'' @ msg_P_050000 @ [CHR 0x00, CHR 0x00], closed = False\<rparr> ts cs =
     (Inr (ts @ [\<lparr>time = ''5:00:00'', end_time_hour = 6, type = ''S'', shares = 200,
                   stock = ''AAPL'', price = 50\<rparr>],
           cs @ [\<lparr>time = ''5:00:00'', end_time_hour = 6, type = ''O'', shares = 300,
                   stock = ''AAPL'', price = 50\<rparr>]), \<lparr>remaining = [], closed = False\<rparr>)" for ts cs
    by (simp add: loop_Q read_payload [OF length_msg_Q_050000] cross_trade_message_msg_Q_050000
        read_2 read_1 l3)
  have l: "loop ''P'' \<lparr>remaining = msg_P_040030 @ [CHR 0x00, CHR 0x00]
       @ ''Q'' @ msg_Q_050000 @ [CHR 0x00, CHR 0x00]
       @ ''P'' @ msg_P_050000 @ [CHR 0x00, CHR 0x00], closed = False\<rparr> [] [] =
     (Inr ([\<lparr>time = ''4:00:30'', end_time_hour = 5, type = ''B'', shares = 100,
                   stock = ''AAPL'', price = 100\<rparr>,
            \<lparr>time = ''5:00:00'', end_time_hour = 6, type = ''S'', shares = 200,
                   stock = ''AAPL'', price = 50\<rparr>],
           [\<lparr>time = ''5:00:00'', end_time_hour = 6, type = ''O'', shares = 300,
                   stock = ''AAPL'', price = 50\<rparr>]), \<lparr>remaining = [], closed = False\<rparr>)"
    using l2 [of "[\<lparr>time = ''4:00:30'', end_time_hour = 5, type = ''B'', shares = 100,
                   stock = ''AAPL'', price = 100\<rparr>]" "[]"]
    by (simp add: loop_P read_payload [OF length_msg_P_040030] trade_message_msg_P_040030
        read_2 read_1)
  show ?thesis using get_trade_data_ok [where fs = "file_system stream_P_Q_P" and self = fresh and hp = "[]", OF s l] by simp
qed

subsection \<open>Truncated streams, unknown types and the handle\<close>

text \<open>
  C3, as stated, fails: on the stream \<open>stream_short_skip\<close> the read of the 13 payload
  bytes of the type S message gets 5 bytes only, and \<open>get_trade_data\<close> returns its two
  frames as after a complete stream.
\<close>

theorem short_skip_read_ends_normally:
  "length (fst (read 13 (fst (snd (start stream_short_skip))))) < 13
   \<and> fst (get_trade_data (file_system stream_short_skip) fresh []) = Inr (0, 1)"
proof -
  have a: "length (fst (read 13 (fst (snd (start stream_short_skip))))) < 13"
    by (simp add: stream_short_skip_def start_eq read_def)
  have b: "fst (get_trade_data (file_system stream_short_skip) fresh []) = Inr (0, 1)"
    by (simp add: get_trade_data_short_skip)
  from a b show ?thesis by (rule conjI)
qed

text \<open>
  C3, amended. At any head of the loop: a type P payload shorter than 43 bytes and a
  type Q payload shorter than 39 bytes end the run with \<open>struct.error\<close> and add no
  record; a short read of a payload to skip, or of the 2 bytes after a decoded
  payload, is not detected, and the loop ends normally at the next read of a type
  byte with the records decoded so far, the one before the short 2 bytes included;
  the end of the stream at the read of a type byte ends the loop normally.
\<close>

theorem truncated_reads:
  "(length (remaining h) < 43 \<longrightarrow> fst (loop ''P'' h ts cs) = Inl StructError)
   \<and> (length (remaining h) < 39 \<longrightarrow> fst (loop ''Q'' h ts cs) = Inl StructError)
   \<and> (t \<in> set valid_types \<longrightarrow> branch_of t = Skip n \<longrightarrow> length (remaining h) < n \<longrightarrow>
        fst (loop t h ts cs) = Inr (ts, cs))
   \<and> (length (remaining h) < 45 \<longrightarrow> trade_message (fst (read 43 h)) = Inr r \<longrightarrow>
        fst (loop ''P'' h ts cs) = Inr (ts @ [r], cs))
   \<and> (length (remaining h) < 41 \<longrightarrow> cross_trade_message (fst (read 39 h)) = Inr r \<longrightarrow>
        fst (loop ''Q'' h ts cs) = Inr (ts, cs @ [r]))
   \<and> fst (loop [] h ts cs) = Inr (ts, cs)"
proof (intro conjI impI)
  assume "length (remaining h) < 43"
  then have "trade_message (fst (read 43 h)) = Inl StructError"
    by (intro trade_message_short) (simp add: read_def)
  then show "fst (loop ''P'' h ts cs) = Inl StructError" by (simp add: loop_P)
next
  assume "length (remaining h) < 39"
  then have "cross_trade_message (fst (read 39 h)) = Inl StructError"
    by (intro cross_trade_message_short) (simp add: read_def)
  then show "fst (loop ''Q'' h ts cs) = Inl StructError" by (simp add: loop_Q)
next
  assume v: "t \<in> set valid_types" and b: "branch_of t = Skip n" and "length (remaining h) < n"
  then have "fst (read 1 (snd (read n h))) = []" by (intro read_exhausted) simp
  then show "fst (loop t h ts cs) = Inr (ts, cs)"
    by (simp add: loop_skip [OF v b] loop_eof)
next
  assume "length (remaining h) < 45" and r: "trade_message (fst (read 43 h)) = Inr r"
  then have "fst (read 1 (snd (read 2 (snd (read 43 h))))) = []" by (simp add: read_def)
  then show "fst (loop ''P'' h ts cs) = Inr (ts @ [r], cs)"
    by (simp add: loop_P r loop_eof)
next
  assume "length (remaining h) < 41" and r: "cross_trade_message (fst (read 39 h)) = Inr r"
  then have "fst (read 1 (snd (read 2 (snd (read 39 h))))) = []" by (simp add: read_def)
  then show "fst (loop ''Q'' h ts cs) = Inr (ts, cs @ [r])"
    by (simp add: loop_Q r loop_eof)
next
  show "fst (loop [] h ts cs) = Inr (ts, cs)" by (simp add: loop_eof)
qed

theorem truncated_reads_witness:
  "fst (loop ''P'' \<lparr>remaining = take 10 msg_P_040030, closed = False\<rparr> [] []) = Inl StructError
   \<and> fst (loop ''Q'' \<lparr>remaining = take 10 msg_P_040030, closed = False\<rparr> [] []) = Inl StructError
   \<and> fst (loop ''S'' \<lparr>remaining = take 10 msg_P_040030, closed = False\<rparr> [] []) = Inr ([], [])
   \<and> fst (loop ''P'' \<lparr>remaining = msg_P_040030 @ [CHR 0x00], closed = False\<rparr> [] []) =
       Inr ([\<lparr>time = ''4:00:30'', end_time_hour = 5, type = ''B'', shares = 100,
              stock = ''AAPL'', price = 100\<rparr>], [])
   \<and> fst (loop ''Q'' \<lparr>remaining = msg_Q_050000 @ [CHR 0x00], closed = False\<rparr> [] []) =
       Inr ([], [\<lparr>time = ''5:00:00'', end_time_hour = 6, type = ''O'', shares = 300,
              stock = ''AAPL'', price = 50\<rparr>])"
proof -
  have a: "length (remaining \<lparr>remaining = take 10 msg_P_040030, closed = False\<rparr>) = 10"
    by (simp add: length_msg_P_040030)
  have p: "trade_message (fst (read 43 \<lparr>remaining = msg_P_040030 @ [CHR 0x00], closed = False\<rparr>)) =
      Inr \<lparr>time = ''4:00:30'', end_time_hour = 5, type = ''B'', shares = 100,
              stock = ''AAPL'', price = 100\<rparr>"
    by (simp add: read_payload [OF length_msg_P_040030] trade_message_msg_P_040030)
  have q: "cross_trade_message (fst (read 39 \<lparr>remaining = msg_Q_050000 @ [CHR 0x00], closed = False\<rparr>)) =
      Inr \<lparr>time = ''5:00:00'', end_time_hour = 6, type = ''O'', shares = 300,
              stock = ''AAPL'', price = 50\<rparr>"
    by (simp add: read_payload [OF length_msg_Q_050000] cross_trade_message_msg_Q_050000)
  show ?thesis
    using truncated_reads [of "\<lparr>remaining = take 10 msg_P_040030, closed = False\<rparr>" "[]" "[]"
        "''S''" 13]
      truncated_reads [of "\<lparr>remaining = msg_P_040030 @ [CHR 0x00], closed = False\<rparr>" "[]" "[]"
        "''S''" 13, where r = "\<lparr>time = ''4:00:30'', end_time_hour = 5, type = ''B'', shares = 100,
              stock = ''AAPL'', price = 100\<rparr>"]
      truncated_reads [of "\<lparr>remaining = msg_Q_050000 @ [CHR 0x00], closed = False\<rparr>" "[]" "[]"
        "''S''" 13, where r = "\<lparr>time = ''5:00:00'', end_time_hour = 6, type = ''O'', shares = 300,
              stock = ''AAPL'', price = 50\<rparr>"]
      a p q
    by (simp add: S_valid branch_of_S length_msg_P_040030 length_msg_Q_050000)
qed

text \<open>
  C4. When the loop comes to its head with a type byte that is not one of the 21 of
  the list, after any number of messages skipped or decoded, \<open>get_trade_data\<close> ends
  with the \<open>AssertionError\<close> of line 78 (the spec's \<open>InvalidMessageType\<close>): it returns
  no frame, whatever was decoded before, and leaves the object and the heap as they
  were; so does \<open>get_VWAP_df\<close> on an object that has no frames yet.
\<close>

theorem invalid_type_aborts_parse:
  assumes "boundary (start (fs (ITCH_data_path self))) (t, h, ts, cs)"
    and "t \<noteq> []" and "t \<notin> set valid_types"
  shows "get_trade_data fs self hp = (Inl AssertionError, h, self, hp)
         \<and> (trade_df self = None \<or> cross_trade_df self = None \<longrightarrow>
              get_VWAP_df fs include_cross_trade self hp = (Inl AssertionError, self, hp))"
proof -
  obtain t0 h0 where s: "start (fs (ITCH_data_path self)) = (t0, h0, [], [])"
    by (simp add: start_def Let_def)
  have "loop t0 h0 [] [] = loop t h ts cs"
    using boundary_loop [OF assms(1)] by (simp add: s)
  then have l: "loop t0 h0 [] [] = (Inl AssertionError, h)"
    by (simp add: loop_invalid [OF assms(2,3)])
  have g: "get_trade_data fs self hp = (Inl AssertionError, h, self, hp)"
    by (rule get_trade_data_error [where fs = fs and self = self, OF s l])
  have "get_VWAP_df fs include_cross_trade self hp = (Inl AssertionError, self, hp)"
    if "trade_df self = None \<or> cross_trade_df self = None"
    using that by (auto simp: get_VWAP_df_def g split: option.splits)
  with g show ?thesis by simp
qed

theorem invalid_type_aborts_parse_witness:
  "get_trade_data (file_system stream_bad_tag) fresh [] =
     (Inl AssertionError, \<lparr>remaining = [], closed = False\<rparr>, fresh, [])
   \<and> get_VWAP_df (file_system stream_bad_tag) False fresh [] = (Inl AssertionError, fresh, [])"
proof -
  have b: "boundary (start (file_system stream_bad_tag (ITCH_data_path fresh)))
     ([CHR 0x00], \<lparr>remaining = [], closed = False\<rparr>,
      [\<lparr>time = ''4:00:30'', end_time_hour = 5, type = ''B'', shares = 100,
        stock = ''AAPL'', price = 100\<rparr>], [])"
    using boundary_bad_tag by (simp add: file_system_def)
  have n: "[CHR 0x00] \<noteq> []" by simp
  have v: "[CHR 0x00] \<notin> set valid_types" by (simp add: valid_types_def)
  show ?thesis
    using invalid_type_aborts_parse [where fs = "file_system stream_bad_tag" and self = fresh
        and hp = "[]" and include_cross_trade = False, OF b n v]
    by (simp add: fresh_def)
qed

text \<open>
  C7, as stated, fails: \<open>get_trade_data\<close> never calls \<open>close()\<close>. After a complete
  stream and after a stream that ends the run with an exception, the handle it opened
  is still open when it is left.
\<close>

theorem handle_left_open:
  "fst (get_trade_data (file_system stream_P_Q_P) fresh []) = Inr (0, 1)
   \<and> \<not> closed (fst (snd (get_trade_data (file_system stream_P_Q_P) fresh [])))
   \<and> fst (get_trade_data (file_system stream_short_P) fresh []) = Inl StructError
   \<and> \<not> closed (fst (snd (get_trade_data (file_system stream_short_P) fresh [])))"
  by (simp add: get_trade_data_P_Q_P get_trade_data_short_P)

text \<open>
  C7, amended. On every way out of \<open>get_trade_data\<close>, with its result or with an
  exception, the handle it opened has not been closed: its release is left to
  the garbage collector.
\<close>

theorem handle_never_closed: "\<not> closed (fst (snd (get_trade_data fs self hp)))"
proof -
  obtain res h' where l: "loop (fst (start (fs (ITCH_data_path self))))
      (fst (snd (start (fs (ITCH_data_path self))))) [] [] = (res, h')"
    by (cases "loop (fst (start (fs (ITCH_data_path self))))
      (fst (snd (start (fs (ITCH_data_path self))))) [] []") 
  have "closed h' = closed (fst (snd (start (fs (ITCH_data_path self)))))"
    using loop_closed [of "fst (start (fs (ITCH_data_path self)))"
        "fst (snd (start (fs (ITCH_data_path self))))" "[]" "[]"] by (simp add: l)
  also have "\<dots> = False"
    by (simp add: start_def Let_def closed_read gzip_open_def)
  finally have c: "\<not> closed h'" by simp
  have s: "start (fs (ITCH_data_path self)) =
    (fst (start (fs (ITCH_data_path self))), fst (snd (start (fs (ITCH_data_path self)))), [], [])"
    by (simp add: start_def Let_def)
  show ?thesis
  proof (cases res)
    case (Inl e)
    show ?thesis
      using get_trade_data_error [where fs = fs and self = self and hp = hp, OF s l [unfolded Inl]] c
      by simp
  next
    case (Inr p)
    obtain ts cs where p: "p = (ts, cs)" by (cases p)
    show ?thesis
      using get_trade_data_ok [where fs = fs and self = self and hp = hp, OF s l [unfolded Inr p]] c
      by simp
  qed
qed

subsection \<open>get\_VWAP\_df and the heap\<close>

lemma calculate_VWAP_eq:
  "calculate_VWAP h a =
     (VWAP_of_rows (rows (h ! a)),
      h[a := (h ! a)\<lparr>total_value := Some (map (\<lambda>t. Some (price t * of_int (shares t))) (rows (h ! a)))\<rparr>])"
proof (cases "a < length h")
  case True
  then show ?thesis by (simp add: calculate_VWAP_def VWAP_of_rows_def Let_def comp_def)
next
  case False
  then have "h[a := x] = h" for x by (simp add: list_update_beyond)
  then show ?thesis by (simp add: calculate_VWAP_def VWAP_of_rows_def Let_def comp_def)
qed

lemma get_VWAP_df_cached_False:
  assumes "trade_df self = Some t" and "cross_trade_df self = Some c"
  shows "get_VWAP_df fs False self hp =
           (Inr (VWAP_of_rows (rows (hp ! t))), self,
            hp @ [(hp ! t)\<lparr>total_value :=
                     Some (map (\<lambda>t. Some (price t * of_int (shares t))) (rows (hp ! t)))\<rparr>])"
  using assms
  by (simp add: get_VWAP_df_def copy_def alloc_def calculate_VWAP_eq Let_def)

lemma get_VWAP_df_cached_True:
  assumes "trade_df self = Some t" and "cross_trade_df self = Some c"
    and "t < length hp" and "c < length hp"
  shows "get_VWAP_df fs True self hp =
           (Inr (VWAP_of_rows (rows (hp ! t) @ rows (hp ! c))), self,
            hp @ [hp ! t, hp ! c,
                  (pd_concat (hp ! t) (hp ! c))\<lparr>total_value :=
                     Some (map (\<lambda>t. Some (price t * of_int (shares t)))
                            (rows (hp ! t) @ rows (hp ! c)))\<rparr>])"
proof -
  have n: "(hp @ [hp ! t, hp ! c]) ! length hp = hp ! t"
    "(hp @ [hp ! t, hp ! c]) ! Suc (length hp) = hp ! c"
    "(hp @ [hp ! t]) ! c = hp ! c"
    using assms(4) by (simp_all add: nth_append)
  have u: "(hp @ [x, y, z])[Suc (Suc (length hp)) := w] = hp @ [x, y, w]" for x y z w :: frame
    by (simp add: list_update_append)
  have k: "(hp @ [x, y, z]) ! Suc (Suc (length hp)) = z" for x y z :: frame
    by (simp add: nth_append)
  show ?thesis
    using assms
    by (simp add: get_VWAP_df_def copy_def alloc_def calculate_VWAP_eq Let_def n u k
        pd_concat_def)
qed

lemma get_trade_data_cases:
  obtains (error) e hdl where "get_trade_data fs self hp = (Inl e, hdl, self, hp)"
  | (ok) ts cs hdl where "get_trade_data fs self hp =
           (Inr (length hp, Suc (length hp)), hdl,
            self\<lparr>trade_df := Some (length hp), cross_trade_df := Some (Suc (length hp))\<rparr>,
            hp @ [DataFrame ts, DataFrame cs])"
proof -
  have s: "start (fs (ITCH_data_path self)) =
    (fst (start (fs (ITCH_data_path self))), fst (snd (start (fs (ITCH_data_path self)))), [], [])"
    by (simp add: start_def Let_def)
  obtain res hdl where l: "loop (fst (start (fs (ITCH_data_path self))))
      (fst (snd (start (fs (ITCH_data_path self))))) [] [] = (res, hdl)"
    by (cases "loop (fst (start (fs (ITCH_data_path self))))
      (fst (snd (start (fs (ITCH_data_path self))))) [] []")
  show ?thesis
  proof (cases res)
    case (Inl e)
    show ?thesis
      using get_trade_data_error [where fs = fs and self = self and hp = hp, OF s l [unfolded Inl]]
      by (rule error)
  next
    case (Inr p)
    obtain ts cs where p: "p = (ts, cs)" by (cases p)
    show ?thesis
      using get_trade_data_ok [where fs = fs and self = self and hp = hp, OF s l [unfolded Inr p]]
      by (rule ok)
  qed
qed

lemma get_VWAP_df_uncached:
  assumes "trade_df self = None \<or> cross_trade_df self = None"
    and "get_trade_data fs self hp = (Inr (t, c), hdl, self', hp')"
  shows "get_VWAP_df fs flag self hp = get_VWAP_df fs flag self' hp'"
    and "trade_df self' = Some t" and "cross_trade_df self' = Some c"
    and "t < length hp'" and "c < length hp'"
    and "total_value (hp' ! t) = None" and "total_value (hp' ! c) = None"
proof -
  have g: "t = length hp \<and> c = Suc (length hp) \<and>
      self' = self\<lparr>trade_df := Some (length hp), cross_trade_df := Some (Suc (length hp))\<rparr> \<and>
      (\<exists>ts cs. hp' = hp @ [DataFrame ts, DataFrame cs])"
    by (cases rule: get_trade_data_cases [of fs self hp]) (use assms(2) in auto)
  then obtain ts cs where hp': "hp' = hp @ [DataFrame ts, DataFrame cs]" by blast
  show "trade_df self' = Some t" "cross_trade_df self' = Some c" using g by simp_all
  show "t < length hp'" "c < length hp'" using g hp' by simp_all
  show "total_value (hp' ! t) = None" "total_value (hp' ! c) = None"
    using g hp' by (simp_all add: nth_append DataFrame_def)
  show "get_VWAP_df fs flag self hp = get_VWAP_df fs flag self' hp'"
    using assms g by (auto simp: get_VWAP_df_def split: option.splits)
qed

subsection \<open>The VWAP table\<close>













subsection \<open>The VWAP table: claims\<close>


lemma group_keys_trades_10_11:
  "sort (remdups (map trade_key trades_10_11)) = [(10, ''AAPL''), (11, ''AAPL'')]"
  by (simp add: trades_10_11_def trade_key_def)











subsection \<open>get\_VWAP\_df: claims\<close>






text \<open>
  C8. \<open>get_VWAP_df\<close> changes no frame that was in the heap before it ran and leaves
  the object as it was; on an object without frames, the frames \<open>get_trade_data\<close>
  stores in it are left as decoded, without a column \<open>total_value\<close>. The column that
  \<open>calculate_VWAP\<close> writes into the frame it is given goes to the copy made on line
  178 or 180.
\<close>

theorem get_VWAP_df_leaves_stored_frames:
  "(trade_df self = Some t \<longrightarrow> cross_trade_df self = Some c \<longrightarrow> t < length hp \<longrightarrow> c < length hp \<longrightarrow>
      fst (snd (get_VWAP_df fs flag self hp)) = self
    \<and> take (length hp) (snd (snd (get_VWAP_df fs flag self hp))) = hp)
   \<and> (trade_df self = None \<or> cross_trade_df self = None \<longrightarrow>
       get_trade_data fs self hp = (Inr (t', c'), hdl, self', hp') \<longrightarrow>
      fst (snd (get_VWAP_df fs flag self hp)) = self'
    \<and> take (length hp') (snd (snd (get_VWAP_df fs flag self hp))) = hp'
    \<and> trade_df self' = Some t' \<and> cross_trade_df self' = Some c'
    \<and> total_value (hp' ! t') = None \<and> total_value (hp' ! c') = None)
   \<and> (a < length h \<longrightarrow> total_value (snd (calculate_VWAP h a) ! a) \<noteq> None)"
proof -
  have cached: "fst (snd (get_VWAP_df fs flag s p)) = s
      \<and> take (length p) (snd (snd (get_VWAP_df fs flag s p))) = p"
    if "trade_df s = Some x" "cross_trade_df s = Some y" "x < length p" "y < length p"
    for s p x y
  proof (cases flag)
    case True
    then show ?thesis by (simp add: get_VWAP_df_cached_True [OF that])
  next
    case False
    then show ?thesis by (simp add: get_VWAP_df_cached_False [OF that(1,2)])
  qed
  have uncached: "fst (snd (get_VWAP_df fs flag self hp)) = self'
    \<and> take (length hp') (snd (snd (get_VWAP_df fs flag self hp))) = hp'
    \<and> trade_df self' = Some t' \<and> cross_trade_df self' = Some c'
    \<and> total_value (hp' ! t') = None \<and> total_value (hp' ! c') = None"
    if n: "trade_df self = None \<or> cross_trade_df self = None"
      and g: "get_trade_data fs self hp = (Inr (t', c'), hdl, self', hp')"
  proof -
    note u = get_VWAP_df_uncached [OF n g]
    show ?thesis
      using cached [OF u(2,3,4,5)] u(2,3,6,7) by (simp add: u(1))
  qed
  have written: "total_value (snd (calculate_VWAP h a) ! a) \<noteq> None" if "a < length h"
    using that by (simp add: calculate_VWAP_eq)
  show ?thesis
    using cached [of self t c hp] uncached written by blast
qed

theorem get_VWAP_df_leaves_stored_frames_witness:
  "snd (get_VWAP_df (file_system stream_P_Q_P) True
          (fresh\<lparr>trade_df := Some 1, cross_trade_df := Some 0\<rparr>)
          [DataFrame [trade_0_shares], DataFrame trades_10_11]) =
     (fresh\<lparr>trade_df := Some 1, cross_trade_df := Some 0\<rparr>,
      [DataFrame [trade_0_shares], DataFrame trades_10_11,
       DataFrame trades_10_11, DataFrame [trade_0_shares],
       \<lparr>rows = trades_10_11 @ [trade_0_shares],
        total_value = Some [Some 10000, Some 10000, Some 0]\<rparr>])
   \<and> take 2 (snd (snd (get_VWAP_df (file_system stream_P_Q_P) False fresh []))) =
     [DataFrame [\<lparr>time = ''4:00:30'', end_time_hour = 5, type = ''B'', shares = 100,
                   stock = ''AAPL'', price = 100\<rparr>,
                  \<lparr>time = ''5:00:00'', end_time_hour = 6, type = ''S'', shares = 200,
                   stock = ''AAPL'', price = 50\<rparr>],
       DataFrame [\<lparr>time = ''5:00:00'', end_time_hour = 6, type = ''O'', shares = 300,
                   stock = ''AAPL'', price = 50\<rparr>]]
   \<and> total_value (snd (calculate_VWAP [DataFrame trades_10_11] 0) ! 0) =
       Some [Some 10000, Some 10000]"
proof -
  have n: "trade_df fresh = None \<or> cross_trade_df fresh = None" by (simp add: fresh_def)
  have c: "trade_df (fresh\<lparr>trade_df := Some 1, cross_trade_df := Some 0\<rparr>) = Some 1"
    "cross_trade_df (fresh\<lparr>trade_df := Some 1, cross_trade_df := Some 0\<rparr>) = Some 0"
    "1 < length [DataFrame [trade_0_shares], DataFrame trades_10_11]"
    "0 < length [DataFrame [trade_0_shares], DataFrame trades_10_11]"
    by simp_all
  have e: "snd (get_VWAP_df (file_system stream_P_Q_P) True
          (fresh\<lparr>trade_df := Some 1, cross_trade_df := Some 0\<rparr>)
          [DataFrame [trade_0_shares], DataFrame trades_10_11]) =
     (fresh\<lparr>trade_df := Some 1, cross_trade_df := Some 0\<rparr>,
      [DataFrame [trade_0_shares], DataFrame trades_10_11,
       DataFrame trades_10_11, DataFrame [trade_0_shares],
       \<lparr>rows = trades_10_11 @ [trade_0_shares],
        total_value = Some [Some 10000, Some 10000, Some 0]\<rparr>])"
    unfolding get_VWAP_df_cached_True [OF c]
    by (simp add: pd_concat_def DataFrame_def trades_10_11_def trade_0_shares_def)
  have w: "total_value (snd (calculate_VWAP [DataFrame trades_10_11] 0) ! 0) =
       Some [Some 10000, Some 10000]"
    by (simp add: calculate_VWAP_eq DataFrame_def trades_10_11_def)
  show ?thesis
    using get_VWAP_df_leaves_stored_frames [where fs = "file_system stream_P_Q_P" and self = fresh
        and hp = "[]" and flag = False, THEN conjunct2, THEN conjunct1, rule_format,
        OF n get_trade_data_P_Q_P]
      get_VWAP_df_leaves_stored_frames [where fs = "file_system stream_P_Q_P"
        and self = "fresh\<lparr>trade_df := Some 1, cross_trade_df := Some 0\<rparr>"
        and hp = "[DataFrame [trade_0_shares], DataFrame trades_10_11]" and flag = True,
        THEN conjunct1, rule_format, OF c]
      e w
    by (simp add: numeral_2_eq_2)
qed

end
